theory Spec2Isabelle
  imports Main
begin

section \<open>The TonConnect page bridge\<close>

text \<open>
  The development embeds \<^verbatim>\<open>src/extension/pageScript/TonConnect.ts\<close>: the class
  \<^verbatim>\<open>TonConnect\<close> that a page reaches as \<^verbatim>\<open>window.mytonwallet.tonconnect\<close>, with
  the helpers \<^verbatim>\<open>getDeviceInfo\<close> and \<^verbatim>\<open>getPlatform\<close>.

  What the class leaves to its surroundings is made explicit:
  \<^item> the browser (\<^verbatim>\<open>window.navigator\<close>, \<^verbatim>\<open>package.json\<close>) is a record that the
    functions reading it take as an argument;
  \<^item> the transport (\<^verbatim>\<open>apiConnector.request\<close>) is a function from the request to the way
    its promise settles: resolved with a response, resolved with no response
    (\<^verbatim>\<open>undefined\<close>, or any other falsy value), or rejected;
  \<^item> a promise is the value it settles to; an \<^verbatim>\<open>async\<close> method is cut at its
    \<^verbatim>\<open>await\<close> into the part that runs at the call and the part that runs once the
    transport has settled, so that other calls can run in between;
  \<^item> a listener is a function of the page. It is known by its identity (what
    \<^verbatim>\<open>!==\<close> compares), and the page is a table giving, for a listener and an event, the
    calls the listener makes on the bridge's registry while it runs (\<^verbatim>\<open>listen\<close>, or an
    unsubscribe function) and the point, if any, at which it throws;
  \<^item> the identifiers are JavaScript numbers holding integers. The counter starts at 0
    and only \<^verbatim>\<open>++\<close> changes it, so it holds a natural number; \<^verbatim>\<open>++\<close> adds one
    as long as the result is a double, that is below \<open>2^53\<close>, and leaves \<open>2^53\<close>
    as it is (\<open>2^53 + 1\<close> rounds back to \<open>2^53\<close>).
\<close>

subsection \<open>Protocol data\<close>

text \<open>
  The types of \<^verbatim>\<open>@tonconnect/protocol\<close> that the bridge handles, as far as it looks
  into them. The platforms are the protocol's; \<^verbatim>\<open>getPlatform\<close> yields five of them.
  What the bridge passes on unread (the items of a connection request and of its reply,
  the parameters and the result of a method call) is kept as text.
\<close>

datatype device_platform = iphone | ipad | android | windows | mac | linux | browser

datatype feature = Feature string | FeatureMaxMessages string nat

record device_info =
  platform :: "device_platform option"
  appName :: string
  appVersion :: string
  maxProtocolVersion :: int
  features :: "feature list"

record connect_request =
  manifestUrl :: string
  requested_items :: "string list"

record connect_payload =
  items :: "string list"
  device :: "device_info option"

text \<open>
  A wallet event: \<^verbatim>\<open>{ event: 'connect', id, payload }\<close>,
  \<^verbatim>\<open>{ event: 'connect_error', id, payload: { code, message } }\<close> or
  \<^verbatim>\<open>{ event: 'disconnect', id, payload: {} }\<close>.
\<close>

datatype wallet_event =
    ConnectEvent nat connect_payload
  | ConnectEventError nat int string
  | DisconnectEvent nat

datatype rpc_id = IdNumber int | IdString string

record app_request =
  app_method :: string
  app_params :: "string list"
  app_id :: rpc_id

text \<open>
  A wallet response: \<^verbatim>\<open>{ result, id }\<close> or \<^verbatim>\<open>{ error: { code, message }, id }\<close>.
\<close>

datatype wallet_response =
    WalletResult string rpc_id
  | WalletError int string rpc_id

text \<open>
  Modelled from the spec: the protocol's error-code enumeration
  \<^verbatim>\<open>CONNECT_EVENT_ERROR_CODES\<close> belongs to the package \<^verbatim>\<open>@tonconnect/protocol\<close>, which
  is not among the sources. The bridge uses its unknown-error and its bad-request
  member; they carry the numbers the package gives them.
\<close>

definition UNKNOWN_ERROR :: int where
  "UNKNOWN_ERROR = 0"

definition BAD_REQUEST_ERROR :: int where
  "BAD_REQUEST_ERROR = 1"

subsection \<open>The device descriptor\<close>

record environment =
  navigator_userAgent :: string
  navigator_platform :: string
  packageJson_version :: string

definition TONCONNECT_VERSION :: int where
  "TONCONNECT_VERSION = 2"

text \<open>\<^verbatim>\<open>/pat/.test(s)\<close> for a pattern of plain characters: \<open>pat\<close> occurs in \<open>s\<close>.\<close>

fun starts_with :: "string \<Rightarrow> string \<Rightarrow> bool" where
  "starts_with [] s = True"
| "starts_with (p # ps) [] = False"
| "starts_with (p # ps) (c # cs) = (p = c \<and> starts_with ps cs)"

fun regex_test :: "string \<Rightarrow> string \<Rightarrow> bool" where
  "regex_test pat [] = starts_with pat []"
| "regex_test pat (c # cs) = (starts_with pat (c # cs) \<or> regex_test pat cs)"

text \<open>
  \<^verbatim>\<open>getPlatform\<close>: \<^verbatim>\<open>indexOf(platform) !== -1\<close> is membership; the result is
  \<^verbatim>\<open>undefined\<close> (\<open>None\<close>) when no branch matches.
\<close>

definition getPlatform :: "environment \<Rightarrow> device_platform option" where
  "getPlatform env =
     (let userAgent = navigator_userAgent env;
          navPlatform = navigator_platform env;
          macosPlatforms = [''macOS'', ''Macintosh'', ''MacIntel'', ''MacPPC'', ''Mac68K''];
          windowsPlatforms = [''Win32'', ''Win64'', ''Windows'', ''WinCE''];
          iphonePlatforms = [''iPhone''];
          ipadPlatforms = [''iPad'', ''iPod'']
      in if navPlatform \<in> set macosPlatforms then Some mac
         else if navPlatform \<in> set iphonePlatforms then Some iphone
         else if navPlatform \<in> set ipadPlatforms then Some ipad
         else if navPlatform \<in> set windowsPlatforms then Some windows
         else if regex_test ''Android'' userAgent then Some linux
         else if regex_test ''Linux'' navPlatform then Some linux
         else None)"

definition getDeviceInfo :: "environment \<Rightarrow> device_info" where
  "getDeviceInfo env =
     \<lparr> platform = getPlatform env,
       appName = ''MyTonWallet'',
       appVersion = packageJson_version env,
       maxProtocolVersion = TONCONNECT_VERSION,
       features = [Feature ''SendTransaction'', FeatureMaxMessages ''SendTransaction'' 4] \<rparr>"

subsection \<open>Requests, promises and the bridge's state\<close>

datatype arg = ArgConnectRequest connect_request | ArgId nat | ArgMessage app_request

record request =
  name :: string
  args :: "arg list"

text \<open>How a promise settles, and how a call that is not \<^verbatim>\<open>async\<close> ends.\<close>

datatype 'a promise = Resolves 'a | Rejects string

datatype 'a outcome = Returns 'a | Throws string

text \<open>
  An \<^verbatim>\<open>async\<close> method after its call: it has returned, or it waits at its
  \<^verbatim>\<open>await\<close> for the promise of a request, holding the local variables the rest of its
  body reads.
\<close>

datatype ('a, 'k) async = Returned 'a | Awaiting request 'k

type_synonym callback = nat

text \<open>
  The fields of the class, then what the class does to its surroundings: whether
  \<^verbatim>\<open>unloadEventListener\<close> is registered on \<^verbatim>\<open>window\<close> for \<^verbatim>\<open>beforeunload\<close>, the
  requests made of the transport, the listener invocations, and the identifiers that
  \<^verbatim>\<open>++this.lastGeneratedId\<close> produced, each in order.
\<close>

record bridge_state =
  deviceInfo :: device_info
  protocolVersion :: int
  isWalletBrowser :: bool
  callbacks :: "callback list"
  lastGeneratedId :: nat
  unloadListening :: bool
  requested :: "request list"
  received :: "(callback \<times> wallet_event) list"
  allocated :: "nat list"

text \<open>\<^verbatim>\<open>new TonConnect(apiConnector)\<close>, as \<^verbatim>\<open>initTonConnect\<close> builds it.\<close>

definition initTonConnect :: "environment \<Rightarrow> bridge_state" where
  "initTonConnect env =
     \<lparr> deviceInfo = getDeviceInfo env,
       protocolVersion = TONCONNECT_VERSION,
       isWalletBrowser = False,
       callbacks = [],
       lastGeneratedId = 0,
       unloadListening = False,
       requested = [],
       received = [],
       allocated = [] \<rparr>"

text \<open>
  \<^verbatim>\<open>++\<close> on a JavaScript number that holds a natural number up to \<open>2^53\<close>: below
  \<open>2^53\<close> the sum is exact; at \<open>2^53\<close> the sum \<open>2^53 + 1\<close> is no double and
  rounds to \<open>2^53\<close>, so the value stays. (The counter, counted up from 0, holds no
  number above \<open>2^53\<close>.)
\<close>

definition exact_limit :: nat where
  "exact_limit = 2 ^ 53"

definition increment :: "nat \<Rightarrow> nat" where
  "increment n = (if n < exact_limit then n + 1 else n)"

text \<open>\<^verbatim>\<open>++this.lastGeneratedId\<close>.\<close>

definition next_id :: "bridge_state \<Rightarrow> nat \<times> bridge_state" where
  "next_id st =
     (let rid = increment (lastGeneratedId st)
      in (rid, st\<lparr>lastGeneratedId := rid, allocated := allocated st @ [rid]\<rparr>))"

text \<open>
  \<^verbatim>\<open>this.request(name, args)\<close> hands the request to the transport; the promise it
  returns is the transport's.
\<close>

definition request :: "string \<Rightarrow> arg list \<Rightarrow> bridge_state \<Rightarrow> request \<times> bridge_state" where
  "request nm as st =
     (let r = \<lparr> name = ''tonConnect_'' @ nm, args = as \<rparr>
      in (r, st\<lparr>requested := requested st @ [r]\<rparr>))"

text \<open>
  \<^verbatim>\<open>buildConnectError(id, msg = 'Unknown error', code?)\<close>; \<^verbatim>\<open>code || UNKNOWN_ERROR\<close>
  takes the second operand when the code is absent or zero.
\<close>

definition buildConnectError :: "nat \<Rightarrow> string option \<Rightarrow> int option \<Rightarrow> wallet_event" where
  "buildConnectError rid msg code =
     ConnectEventError rid
       (case code of None \<Rightarrow> UNKNOWN_ERROR | Some c \<Rightarrow> if c = 0 then UNKNOWN_ERROR else c)
       (case msg of None \<Rightarrow> ''Unknown error'' | Some m \<Rightarrow> m)"

definition removeEventListeners :: "bridge_state \<Rightarrow> bridge_state" where
  "removeEventListeners st = st\<lparr>unloadListening := False\<rparr>"

definition addEventListeners :: "bridge_state \<Rightarrow> bridge_state" where
  "addEventListeners st = (removeEventListeners st)\<lparr>unloadListening := True\<rparr>"

definition unloadEventListener :: "bridge_state \<Rightarrow> bridge_state" where
  "unloadEventListener st = snd (request ''deactivate'' [] st)"

subsection \<open>Listeners and event dispatch\<close>

text \<open>
  The function \<^verbatim>\<open>listen\<close> returns: it replaces the registry by a new array without
  the callback. \<^verbatim>\<open>listen\<close> itself pushes onto the array in place.
\<close>

definition unsubscribe :: "callback \<Rightarrow> bridge_state \<Rightarrow> bridge_state" where
  "unsubscribe callback st = st\<lparr>callbacks := filter (\<lambda>cb. cb \<noteq> callback) (callbacks st)\<rparr>"

definition listen :: "callback \<Rightarrow> bridge_state \<Rightarrow> (bridge_state \<Rightarrow> bridge_state) \<times> bridge_state" where
  "listen callback st = (unsubscribe callback, st\<lparr>callbacks := callbacks st @ [callback]\<rparr>)"

text \<open>What a listener does while it runs: calls on the registry, and throwing.\<close>

datatype action = CallListen callback | CallUnsubscribe callback | Throw string

type_synonym page = "callback \<Rightarrow> wallet_event \<Rightarrow> action list"

text \<open>The body of a listener: it runs until it ends or throws.\<close>

fun run_actions :: "action list \<Rightarrow> bridge_state \<Rightarrow> unit outcome \<times> bridge_state" where
  "run_actions [] st = (Returns (), st)"
| "run_actions (CallListen c # rest) st = run_actions rest (snd (listen c st))"
| "run_actions (CallUnsubscribe c # rest) st = run_actions rest (unsubscribe c st)"
| "run_actions (Throw e # rest) st = (Throws e, st)"

text \<open>One invocation \<^verbatim>\<open>cb(event)\<close>: the listener receives the event, then runs.\<close>

definition invoke ::
  "page \<Rightarrow> wallet_event \<Rightarrow> callback \<Rightarrow> bridge_state \<Rightarrow> unit outcome \<times> bridge_state" where
  "invoke page event cb st =
     run_actions (page cb event) (st\<lparr>received := received st @ [(cb, event)]\<rparr>)"

text \<open>
  \<^verbatim>\<open>array.forEach(f)\<close> over the elements the array has when the loop starts; what
  \<open>f\<close> throws ends the loop.
\<close>

fun forEach ::
  "(callback \<Rightarrow> bridge_state \<Rightarrow> unit outcome \<times> bridge_state) \<Rightarrow> callback list \<Rightarrow> bridge_state
     \<Rightarrow> unit outcome \<times> bridge_state" where
  "forEach f [] st = (Returns (), st)"
| "forEach f (cb # cbs) st =
     (case f cb st of
        (Throws e, st1) \<Rightarrow> (Throws e, st1)
      | (Returns u, st1) \<Rightarrow> forEach f cbs st1)"

text \<open>
  \<^verbatim>\<open>this.callbacks.forEach((cb) => cb(event)); return event\<close>. \<^verbatim>\<open>forEach\<close> reads
  the array that \<^verbatim>\<open>this.callbacks\<close> holds when it is called and fixes the number of
  elements it visits then: an unsubscription during the loop assigns another array to
  the field, and a \<^verbatim>\<open>push\<close> lands beyond the elements visited. So the loop runs
  over the list of the state it starts in.
\<close>

definition emit :: "page \<Rightarrow> wallet_event \<Rightarrow> bridge_state \<Rightarrow> wallet_event outcome \<times> bridge_state" where
  "emit page event st =
     (case forEach (invoke page event) (callbacks st) st of
        (Throws e, st1) \<Rightarrow> (Throws e, st1)
      | (Returns u, st1) \<Rightarrow> (Returns event, st1))"

text \<open>The invocations one dispatch makes: what it adds to the record of invocations.\<close>

definition dispatched :: "page \<Rightarrow> wallet_event \<Rightarrow> bridge_state \<Rightarrow> (callback \<times> wallet_event) list" where
  "dispatched page event st = drop (length (received st)) (received (snd (emit page event st)))"

text \<open>
  To speak about a listener's body: whether it throws, the calls it makes before it
  does, what one such call does to the state, and the listeners of a list that a
  dispatch reaches (those up to the first that throws).
\<close>

fun throws :: "action list \<Rightarrow> bool" where
  "throws [] = False"
| "throws (Throw e # rest) = True"
| "throws (a # rest) = throws rest"

fun performed :: "action list \<Rightarrow> action list" where
  "performed [] = []"
| "performed (Throw e # rest) = []"
| "performed (a # rest) = a # performed rest"

fun perform :: "action \<Rightarrow> bridge_state \<Rightarrow> bridge_state" where
  "perform (CallListen c) st = snd (listen c st)"
| "perform (CallUnsubscribe c) st = unsubscribe c st"
| "perform (Throw e) st = st"

fun reached :: "page \<Rightarrow> wallet_event \<Rightarrow> callback list \<Rightarrow> callback list" where
  "reached page event [] = []"
| "reached page event (cb # cbs) =
     cb # (if throws (page cb event) then [] else reached page event cbs)"

subsection \<open>The operations\<close>

text \<open>
  The body of an \<^verbatim>\<open>async\<close> method ends: what it returns resolves the method's
  promise, what it throws rejects it.
\<close>

definition settle :: "'a outcome \<times> bridge_state \<Rightarrow> 'a promise \<times> bridge_state" where
  "settle r = (case r of (Throws e, st) \<Rightarrow> (Rejects e, st) | (Returns v, st) \<Rightarrow> (Resolves v, st))"

text \<open>\<^verbatim>\<open>connect\<close> up to its \<^verbatim>\<open>await\<close>.\<close>

definition connect_call ::
  "int \<Rightarrow> connect_request \<Rightarrow> bridge_state \<Rightarrow> (wallet_event, nat) async \<times> bridge_state" where
  "connect_call version message st =
     (let (rid, st1) = next_id st
      in if version > protocolVersion st1
         then (Returned (buildConnectError rid (Some ''Unsupported protocol version'')
                           (Some BAD_REQUEST_ERROR)), st1)
         else (let (r, st2) = request ''connect'' [ArgConnectRequest message, ArgId rid] st1
               in (Awaiting r rid, st2)))"

text \<open>
  \<^verbatim>\<open>connect\<close> from its \<^verbatim>\<open>await\<close> on, given how the transport's promise settled. A
  rejected promise makes \<^verbatim>\<open>await\<close> throw, and the method has no handler: what is
  thrown inside it, by \<^verbatim>\<open>await\<close> or by a listener during \<^verbatim>\<open>emit\<close>, rejects its
  promise.
\<close>

definition connect_resume ::
  "environment \<Rightarrow> page \<Rightarrow> nat \<Rightarrow> wallet_event option promise \<Rightarrow> bridge_state
     \<Rightarrow> wallet_event promise \<times> bridge_state" where
  "connect_resume env page rid settled st =
     (case settled of
        Rejects reason \<Rightarrow> (Rejects reason, st)
      | Resolves response \<Rightarrow>
          (let (response1, st1) =
                 (case response of
                    Some (ConnectEvent eid payload) \<Rightarrow>
                      (Some (ConnectEvent eid (payload\<lparr>device := Some (getDeviceInfo env)\<rparr>)),
                       addEventListeners st)
                  | _ \<Rightarrow> (response, st))
           in settle (emit page (case response1 of Some ev \<Rightarrow> ev
                                 | None \<Rightarrow> buildConnectError rid None None) st1)))"

text \<open>The whole of \<^verbatim>\<open>connect\<close>, when nothing else runs while it waits.\<close>

definition connect ::
  "environment \<Rightarrow> page \<Rightarrow> (request \<Rightarrow> wallet_event option promise) \<Rightarrow> int \<Rightarrow> connect_request
     \<Rightarrow> bridge_state \<Rightarrow> wallet_event promise \<times> bridge_state" where
  "connect env page transport version message st =
     (case connect_call version message st of
        (Returned event, st1) \<Rightarrow> (Resolves event, st1)
      | (Awaiting r rid, st1) \<Rightarrow> connect_resume env page rid (transport r) st1)"

text \<open>\<^verbatim>\<open>restoreConnection\<close>, cut the same way.\<close>

definition restoreConnection_call :: "bridge_state \<Rightarrow> (wallet_event, nat) async \<times> bridge_state" where
  "restoreConnection_call st =
     (let (rid, st1) = next_id st;
          (r, st2) = request ''reconnect'' [ArgId rid] st1
      in (Awaiting r rid, st2))"

definition restoreConnection_resume ::
  "environment \<Rightarrow> page \<Rightarrow> nat \<Rightarrow> wallet_event option promise \<Rightarrow> bridge_state
     \<Rightarrow> wallet_event promise \<times> bridge_state" where
  "restoreConnection_resume env page rid settled st =
     (case settled of
        Rejects reason \<Rightarrow> (Rejects reason, st)
      | Resolves response \<Rightarrow>
          (let (response1, st1) =
                 (case response of
                    Some (ConnectEvent eid payload) \<Rightarrow>
                      (Some (ConnectEvent eid (payload\<lparr>device := Some (getDeviceInfo env)\<rparr>)),
                       addEventListeners st)
                  | _ \<Rightarrow> (response, st))
           in settle (emit page (case response1 of Some ev \<Rightarrow> ev
                                 | None \<Rightarrow> buildConnectError rid None None) st1)))"

definition restoreConnection ::
  "environment \<Rightarrow> page \<Rightarrow> (request \<Rightarrow> wallet_event option promise) \<Rightarrow> bridge_state
     \<Rightarrow> wallet_event promise \<times> bridge_state" where
  "restoreConnection env page transport st =
     (case restoreConnection_call st of
        (Returned event, st1) \<Rightarrow> (Resolves event, st1)
      | (Awaiting r rid, st1) \<Rightarrow> restoreConnection_resume env page rid (transport r) st1)"

text \<open>
  \<^verbatim>\<open>send\<close>: the request is made at the call; the rest reads the message.
\<close>

definition send_call :: "app_request \<Rightarrow> bridge_state \<Rightarrow> (wallet_response, app_request) async \<times> bridge_state" where
  "send_call message st =
     (let (r, st1) = request (app_method message) [ArgMessage message] st
      in (Awaiting r message, st1))"

definition send_resume ::
  "app_request \<Rightarrow> wallet_response option promise \<Rightarrow> bridge_state
     \<Rightarrow> wallet_response promise \<times> bridge_state" where
  "send_resume message settled st =
     (case settled of
        Rejects reason \<Rightarrow> (Rejects reason, st)
      | Resolves response \<Rightarrow>
          (let st1 = (if app_method message = ''disconnect'' then removeEventListeners st else st)
           in (Resolves (case response of Some r \<Rightarrow> r
                         | None \<Rightarrow> WalletError 0 ''Unknown error'' (app_id message)), st1)))"

definition send ::
  "(request \<Rightarrow> wallet_response option promise) \<Rightarrow> app_request \<Rightarrow> bridge_state
     \<Rightarrow> wallet_response promise \<times> bridge_state" where
  "send transport message st =
     (case send_call message st of
        (Returned response, st1) \<Rightarrow> (Resolves response, st1)
      | (Awaiting r m, st1) \<Rightarrow> send_resume m (transport r) st1)"

definition onDisconnect :: "page \<Rightarrow> bridge_state \<Rightarrow> unit outcome \<times> bridge_state" where
  "onDisconnect page st =
     (let (rid, st1) = next_id st
      in (case emit page (DisconnectEvent rid) st1 of
            (Throws e, st2) \<Rightarrow> (Throws e, st2)
          | (Returns event, st2) \<Rightarrow> (Returns (), removeEventListeners st2)))"

text \<open>The private method \<^verbatim>\<open>destroy\<close> is called nowhere and is left out.\<close>

subsection \<open>Schedules\<close>

text \<open>
  What can happen to one bridge, one step at a time: a call of a method, the rest of
  an \<^verbatim>\<open>async\<close> method once its request has settled (holding the identifier, or the
  message, that the call left in its local variables), and the page unloading. Steps run
  one after another, as on the page's single thread; between the call of an
  \<^verbatim>\<open>async\<close> method and its continuation any other steps may stand. A schedule may
  also hold a continuation whose call never happened: the schedules of the real bridge
  are among the lists of steps.
\<close>

datatype step =
    ConnectCall int connect_request
  | ConnectSettled nat "wallet_event option promise"
  | RestoreConnectionCall
  | RestoreConnectionSettled nat "wallet_event option promise"
  | SendCall app_request
  | SendSettled app_request "wallet_response option promise"
  | Listen callback
  | Unsubscribe callback
  | OnDisconnect
  | BeforeUnload

fun exec :: "environment \<Rightarrow> page \<Rightarrow> step \<Rightarrow> bridge_state \<Rightarrow> bridge_state" where
  "exec env page (ConnectCall version message) st = snd (connect_call version message st)"
| "exec env page (ConnectSettled rid settled) st = snd (connect_resume env page rid settled st)"
| "exec env page RestoreConnectionCall st = snd (restoreConnection_call st)"
| "exec env page (RestoreConnectionSettled rid settled) st =
     snd (restoreConnection_resume env page rid settled st)"
| "exec env page (SendCall message) st = snd (send_call message st)"
| "exec env page (SendSettled message settled) st = snd (send_resume message settled st)"
| "exec env page (Listen callback) st = snd (listen callback st)"
| "exec env page (Unsubscribe callback) st = unsubscribe callback st"
| "exec env page OnDisconnect st = snd (onDisconnect page st)"
| "exec env page BeforeUnload st = (if unloadListening st then unloadEventListener st else st)"

definition run :: "environment \<Rightarrow> page \<Rightarrow> step list \<Rightarrow> bridge_state \<Rightarrow> bridge_state" where
  "run env page steps st = fold (exec env page) steps st"

text \<open>The steps that take an identifier, and the steps of \<^verbatim>\<open>send\<close>.\<close>

fun allocates :: "step \<Rightarrow> bool" where
  "allocates (ConnectCall version message) = True"
| "allocates RestoreConnectionCall = True"
| "allocates OnDisconnect = True"
| "allocates other = False"

fun is_send :: "step \<Rightarrow> bool" where
  "is_send (SendCall message) = True"
| "is_send (SendSettled message settled) = True"
| "is_send other = False"

subsection \<open>Sample surroundings\<close>

definition sample_env :: environment where
  "sample_env =
     \<lparr> navigator_userAgent = ''Mozilla/5.0 (X11; Linux x86_64)'',
       navigator_platform = ''Linux x86_64'',
       packageJson_version = ''1.19.0'' \<rparr>"

definition sample_request :: connect_request where
  "sample_request = \<lparr> manifestUrl = ''https://dapp.example/manifest.json'',
                       requested_items = [''ton_addr''] \<rparr>"

text \<open>Listeners that leave the registry alone.\<close>

definition quiet_page :: page where
  "quiet_page cb event = []"

text \<open>
  Listener 1 unsubscribes listener 3 when it runs, and listener 2 unsubscribes itself.
  On the second page listener 1 unsubscribes listener 3 and then throws; the other
  listeners do nothing.
\<close>

definition unsubscribing_page :: page where
  "unsubscribing_page cb event =
     (if cb = 1 then [CallUnsubscribe 3] else if cb = 2 then [CallUnsubscribe 2] else [])"

definition throwing_page :: page where
  "throwing_page cb event =
     (if cb = 1 then [CallUnsubscribe 3, Throw ''listener failure''] else [])"

text \<open>A transport whose promise resolves with no response, and one whose promise rejects.\<close>

definition silent_transport :: "request \<Rightarrow> 'a option promise" where
  "silent_transport r = Resolves None"

definition failing_transport :: "request \<Rightarrow> 'a option promise" where
  "failing_transport r = Rejects ''transport failure''"

text \<open>A transport that grants every connection, with a device descriptor of its own.\<close>

definition granting_transport :: "request \<Rightarrow> wallet_event option promise" where
  "granting_transport r =
     Resolves (Some (ConnectEvent 0
       \<lparr> items = [''ton_addr''],
         device = Some \<lparr> platform = Some browser, appName = ''Other'', appVersion = ''0'',
                         maxProtocolVersion = 1, features = [] \<rparr> \<rparr>))"

section \<open>Properties\<close>

subsection \<open>What each operation changes\<close>

lemma increment_0 [simp]: "increment 0 = 1"
  by (simp add: increment_def exact_limit_def)

lemma increment_below: "n < exact_limit \<Longrightarrow> increment n = Suc n"
  by (simp add: increment_def)

lemma increment_limit: "increment exact_limit = exact_limit"
  by (simp add: increment_def)

lemma next_id_fields [simp]:
  "fst (next_id st) = increment (lastGeneratedId st)"
  "lastGeneratedId (snd (next_id st)) = increment (lastGeneratedId st)"
  "allocated (snd (next_id st)) = allocated st @ [increment (lastGeneratedId st)]"
  "callbacks (snd (next_id st)) = callbacks st"
  "requested (snd (next_id st)) = requested st"
  "received (snd (next_id st)) = received st"
  "unloadListening (snd (next_id st)) = unloadListening st"
  "protocolVersion (snd (next_id st)) = protocolVersion st"
  by (simp_all add: next_id_def Let_def)

lemma request_fields [simp]:
  "fst (request nm as st) = \<lparr> name = ''tonConnect_'' @ nm, args = as \<rparr>"
  "lastGeneratedId (snd (request nm as st)) = lastGeneratedId st"
  "allocated (snd (request nm as st)) = allocated st"
  "callbacks (snd (request nm as st)) = callbacks st"
  "requested (snd (request nm as st)) = requested st @ [\<lparr> name = ''tonConnect_'' @ nm, args = as \<rparr>]"
  "received (snd (request nm as st)) = received st"
  "unloadListening (snd (request nm as st)) = unloadListening st"
  "protocolVersion (snd (request nm as st)) = protocolVersion st"
  by (simp_all add: request_def Let_def)

lemma removeEventListeners_fields [simp]:
  "lastGeneratedId (removeEventListeners st) = lastGeneratedId st"
  "allocated (removeEventListeners st) = allocated st"
  "callbacks (removeEventListeners st) = callbacks st"
  "requested (removeEventListeners st) = requested st"
  "received (removeEventListeners st) = received st"
  "unloadListening (removeEventListeners st) = False"
  "protocolVersion (removeEventListeners st) = protocolVersion st"
  by (simp_all add: removeEventListeners_def)

lemma addEventListeners_fields [simp]:
  "lastGeneratedId (addEventListeners st) = lastGeneratedId st"
  "allocated (addEventListeners st) = allocated st"
  "callbacks (addEventListeners st) = callbacks st"
  "requested (addEventListeners st) = requested st"
  "received (addEventListeners st) = received st"
  "unloadListening (addEventListeners st) = True"
  "protocolVersion (addEventListeners st) = protocolVersion st"
  by (simp_all add: addEventListeners_def removeEventListeners_def)

lemma unsubscribe_fields [simp]:
  "lastGeneratedId (unsubscribe c st) = lastGeneratedId st"
  "allocated (unsubscribe c st) = allocated st"
  "callbacks (unsubscribe c st) = filter (\<lambda>cb. cb \<noteq> c) (callbacks st)"
  "requested (unsubscribe c st) = requested st"
  "received (unsubscribe c st) = received st"
  "unloadListening (unsubscribe c st) = unloadListening st"
  "protocolVersion (unsubscribe c st) = protocolVersion st"
  by (simp_all add: unsubscribe_def)

lemma listen_fields [simp]:
  "fst (listen c st) = unsubscribe c"
  "lastGeneratedId (snd (listen c st)) = lastGeneratedId st"
  "allocated (snd (listen c st)) = allocated st"
  "callbacks (snd (listen c st)) = callbacks st @ [c]"
  "requested (snd (listen c st)) = requested st"
  "received (snd (listen c st)) = received st"
  "unloadListening (snd (listen c st)) = unloadListening st"
  "protocolVersion (snd (listen c st)) = protocolVersion st"
  by (simp_all add: listen_def)

lemma perform_fields [simp]:
  "lastGeneratedId (perform a st) = lastGeneratedId st"
  "allocated (perform a st) = allocated st"
  "requested (perform a st) = requested st"
  "received (perform a st) = received st"
  "unloadListening (perform a st) = unloadListening st"
  "protocolVersion (perform a st) = protocolVersion st"
  by (cases a; simp)+

lemma perform_received_update:
  "perform a (st\<lparr>received := x\<rparr>) = (perform a st)\<lparr>received := x\<rparr>"
  by (cases a) (simp_all add: listen_def unsubscribe_def)

lemma fold_perform_received_update:
  "fold perform as (st\<lparr>received := x\<rparr>) = (fold perform as st)\<lparr>received := x\<rparr>"
  by (induction as arbitrary: st) (simp_all add: perform_received_update)

lemma fold_perform_fields [simp]:
  "lastGeneratedId (fold perform as st) = lastGeneratedId st"
  "allocated (fold perform as st) = allocated st"
  "requested (fold perform as st) = requested st"
  "received (fold perform as st) = received st"
  "unloadListening (fold perform as st) = unloadListening st"
  "protocolVersion (fold perform as st) = protocolVersion st"
  by (induction as arbitrary: st; simp)+

text \<open>A listener's body, an invocation, the loop and \<^verbatim>\<open>emit\<close> in closed form.\<close>

lemma run_actions_snd:
  "snd (run_actions as st) = fold perform (performed as) st"
  by (induction as st rule: run_actions.induct) simp_all

lemma run_actions_fst:
  "fst (run_actions as st) = Returns () \<longleftrightarrow> \<not> throws as"
  by (induction as st rule: run_actions.induct) simp_all

lemma invoke_snd:
  "snd (invoke page event cb st) =
     (fold perform (performed (page cb event)) st)\<lparr>received := received st @ [(cb, event)]\<rparr>"
  by (simp add: invoke_def run_actions_snd fold_perform_received_update)

lemma invoke_fst:
  "fst (invoke page event cb st) = Returns () \<longleftrightarrow> \<not> throws (page cb event)"
  by (simp add: invoke_def run_actions_fst)

lemma forEach_invoke_snd:
  "snd (forEach (invoke page event) cbs st) =
     (fold perform (concat (map (\<lambda>cb. performed (page cb event)) (reached page event cbs))) st)
       \<lparr>received := received st @ map (\<lambda>cb. (cb, event)) (reached page event cbs)\<rparr>"
proof (induction cbs arbitrary: st)
  case Nil
  show ?case by simp
next
  case (Cons cb cbs)
  obtain r st1 where inv: "invoke page event cb st = (r, st1)"
    by (cases "invoke page event cb st")
  then have st1: "st1 = (fold perform (performed (page cb event)) st)
                          \<lparr>received := received st @ [(cb, event)]\<rparr>"
    using invoke_snd [of page event cb st] by simp
  show ?case
  proof (cases "throws (page cb event)")
    case True
    then have "r \<noteq> Returns ()"
      using invoke_fst [of page event cb st] inv by simp
    then obtain e where "r = Throws e"
      by (cases r) simp_all
    with True inv st1 show ?thesis
      by simp
  next
    case False
    then have "r = Returns ()"
      using invoke_fst [of page event cb st] inv by simp
    with False inv st1 show ?thesis
      by (simp add: Cons.IH fold_perform_received_update)
  qed
qed

lemma forEach_invoke_fst:
  "fst (forEach (invoke page event) cbs st) = Returns () \<longleftrightarrow>
     (\<forall>cb \<in> set cbs. \<not> throws (page cb event))"
proof (induction cbs arbitrary: st)
  case Nil
  show ?case by simp
next
  case (Cons cb cbs)
  obtain r st1 where inv: "invoke page event cb st = (r, st1)"
    by (cases "invoke page event cb st")
  show ?case
  proof (cases "throws (page cb event)")
    case True
    then have "r \<noteq> Returns ()"
      using invoke_fst [of page event cb st] inv by simp
    then obtain e where "r = Throws e"
      by (cases r) simp_all
    with True inv show ?thesis
      by simp
  next
    case False
    then have "r = Returns ()"
      using invoke_fst [of page event cb st] inv by simp
    with False inv show ?thesis
      by (simp add: Cons.IH)
  qed
qed

lemma reached_all:
  "\<forall>cb \<in> set cbs. \<not> throws (page cb event) \<Longrightarrow> reached page event cbs = cbs"
  by (induction cbs) simp_all

lemma set_reached: "set (reached page event cbs) \<subseteq> set cbs"
  by (induction cbs) auto

lemma emit_snd:
  "snd (emit page event st) =
     (fold perform
        (concat (map (\<lambda>cb. performed (page cb event)) (reached page event (callbacks st)))) st)
       \<lparr>received := received st @ map (\<lambda>cb. (cb, event)) (reached page event (callbacks st))\<rparr>"
proof -
  have "snd (emit page event st) = snd (forEach (invoke page event) (callbacks st) st)"
    by (simp add: emit_def split: prod.splits outcome.splits)
  then show ?thesis
    by (simp add: forEach_invoke_snd)
qed

lemma emit_fst:
  "fst (emit page event st) =
     (case fst (forEach (invoke page event) (callbacks st) st) of
        Throws e \<Rightarrow> Throws e | Returns u \<Rightarrow> Returns event)"
  by (simp add: emit_def split: prod.splits outcome.splits)

lemma emit_returns:
  "\<forall>cb \<in> set (callbacks st). \<not> throws (page cb event) \<Longrightarrow> fst (emit page event st) = Returns event"
  using forEach_invoke_fst [of page event "callbacks st" st] by (simp add: emit_fst)

lemma emit_returns_only:
  "fst (emit page event st) = Returns v \<Longrightarrow> v = event"
  by (simp add: emit_fst split: outcome.splits)

lemma emit_fields [simp]:
  "lastGeneratedId (snd (emit page event st)) = lastGeneratedId st"
  "allocated (snd (emit page event st)) = allocated st"
  "requested (snd (emit page event st)) = requested st"
  "received (snd (emit page event st)) =
     received st @ map (\<lambda>cb. (cb, event)) (reached page event (callbacks st))"
  "unloadListening (snd (emit page event st)) = unloadListening st"
  "protocolVersion (snd (emit page event st)) = protocolVersion st"
  "callbacks (snd (emit page event st)) =
     callbacks (fold perform
       (concat (map (\<lambda>cb. performed (page cb event)) (reached page event (callbacks st)))) st)"
  by (simp_all add: emit_snd)

lemma settle_fields [simp]:
  "snd (settle r) = snd r"
  "fst (settle r) = (case fst r of Throws e \<Rightarrow> Rejects e | Returns v \<Rightarrow> Resolves v)"
  by (simp_all add: settle_def split: prod.splits outcome.splits)

text \<open>The operations, with the local bindings read off.\<close>

lemma connect_call_eq:
  "connect_call version message st =
     (if protocolVersion st < version
      then (Returned (ConnectEventError (increment (lastGeneratedId st)) BAD_REQUEST_ERROR
                        ''Unsupported protocol version''),
            snd (next_id st))
      else (Awaiting \<lparr> name = ''tonConnect_connect'',
                        args = [ArgConnectRequest message, ArgId (increment (lastGeneratedId st))] \<rparr>
                     (increment (lastGeneratedId st)),
            snd (request ''connect'' [ArgConnectRequest message, ArgId (increment (lastGeneratedId st))]
                   (snd (next_id st)))))"
  by (simp add: connect_call_def case_prod_beta buildConnectError_def BAD_REQUEST_ERROR_def)

lemma restoreConnection_call_eq:
  "restoreConnection_call st =
     (Awaiting \<lparr> name = ''tonConnect_reconnect'', args = [ArgId (increment (lastGeneratedId st))] \<rparr>
               (increment (lastGeneratedId st)),
      snd (request ''reconnect'' [ArgId (increment (lastGeneratedId st))] (snd (next_id st))))"
  by (simp add: restoreConnection_call_def case_prod_beta)

lemma send_call_eq:
  "send_call message st =
     (Awaiting \<lparr> name = ''tonConnect_'' @ app_method message, args = [ArgMessage message] \<rparr> message,
      snd (request (app_method message) [ArgMessage message] st))"
  by (simp add: send_call_def case_prod_beta)

lemma restoreConnection_resume_eq:
  "restoreConnection_resume env page rid settled st = connect_resume env page rid settled st"
  by (simp add: restoreConnection_resume_def connect_resume_def)

lemma connect_resume_Rejects [simp]:
  "connect_resume env page rid (Rejects reason) st = (Rejects reason, st)"
  by (simp add: connect_resume_def)

lemma connect_resume_None [simp]:
  "connect_resume env page rid (Resolves None) st =
     settle (emit page (ConnectEventError rid UNKNOWN_ERROR ''Unknown error'') st)"
  by (simp add: connect_resume_def buildConnectError_def)

lemma connect_resume_ConnectEvent [simp]:
  "connect_resume env page rid (Resolves (Some (ConnectEvent eid payload))) st =
     settle (emit page (ConnectEvent eid (payload\<lparr>device := Some (getDeviceInfo env)\<rparr>))
               (addEventListeners st))"
  by (simp add: connect_resume_def)

lemma connect_resume_ConnectEventError [simp]:
  "connect_resume env page rid (Resolves (Some (ConnectEventError eid code msg))) st =
     settle (emit page (ConnectEventError eid code msg) st)"
  by (simp add: connect_resume_def)

lemma connect_resume_DisconnectEvent [simp]:
  "connect_resume env page rid (Resolves (Some (DisconnectEvent eid))) st =
     settle (emit page (DisconnectEvent eid) st)"
  by (simp add: connect_resume_def)

lemma settled_cases:
  obtains reason where "settled = Rejects reason"
  | "settled = Resolves None"
  | eid payload where "settled = Resolves (Some (ConnectEvent eid payload))"
  | eid code msg where "settled = Resolves (Some (ConnectEventError eid code msg))"
  | eid where "settled = Resolves (Some (DisconnectEvent eid))"
  by (metis promise.exhaust option.exhaust wallet_event.exhaust)

lemma connect_resume_counter [simp]:
  "lastGeneratedId (snd (connect_resume env page rid settled st)) = lastGeneratedId st"
  "allocated (snd (connect_resume env page rid settled st)) = allocated st"
  "requested (snd (connect_resume env page rid settled st)) = requested st"
  by (cases settled rule: settled_cases; simp)+

lemma send_resume_fields [simp]:
  "lastGeneratedId (snd (send_resume message settled st)) = lastGeneratedId st"
  "allocated (snd (send_resume message settled st)) = allocated st"
  "callbacks (snd (send_resume message settled st)) = callbacks st"
  "received (snd (send_resume message settled st)) = received st"
  by (simp_all add: send_resume_def split: promise.splits)

lemma onDisconnect_snd:
  "snd (onDisconnect page st) =
     (case fst (emit page (DisconnectEvent (increment (lastGeneratedId st))) (snd (next_id st))) of
        Throws e \<Rightarrow> snd (emit page (DisconnectEvent (increment (lastGeneratedId st))) (snd (next_id st)))
      | Returns event \<Rightarrow>
          removeEventListeners
            (snd (emit page (DisconnectEvent (increment (lastGeneratedId st))) (snd (next_id st)))))"
  by (simp add: onDisconnect_def case_prod_beta split: prod.splits outcome.splits)

lemma onDisconnect_fields [simp]:
  "lastGeneratedId (snd (onDisconnect page st)) = increment (lastGeneratedId st)"
  "allocated (snd (onDisconnect page st)) = allocated st @ [increment (lastGeneratedId st)]"
  "requested (snd (onDisconnect page st)) = requested st"
  "received (snd (onDisconnect page st)) =
     received st @ map (\<lambda>cb. (cb, DisconnectEvent (increment (lastGeneratedId st))))
                     (reached page (DisconnectEvent (increment (lastGeneratedId st))) (callbacks st))"
  "callbacks (snd (onDisconnect page st)) =
     callbacks (snd (emit page (DisconnectEvent (increment (lastGeneratedId st))) (snd (next_id st))))"
  by (simp_all add: onDisconnect_snd split: outcome.splits)

subsection \<open>Unsupported protocol versions\<close>

text \<open>
  Claim C3. When the requested version is greater than the bridge's
  \<^verbatim>\<open>protocolVersion\<close>, \<^verbatim>\<open>connect\<close> resolves with the \<^verbatim>\<open>connect_error\<close> event
  that carries the identifier just taken, the bad-request code and the message
  "Unsupported protocol version". Nothing else happens: the state is the one the
  increment of the counter leaves, so no request has reached the transport (and the
  outcome does not depend on the transport). A new bridge supports version 2 and has
  taken no identifier: there every version above 2 is answered with identifier 1.
\<close>

theorem connect_unsupported_version:
  "(protocolVersion st < version \<longrightarrow>
      connect env page transport version message st =
        (Resolves (ConnectEventError (increment (lastGeneratedId st)) BAD_REQUEST_ERROR
                     ''Unsupported protocol version''),
         snd (next_id st))
      \<and> requested (snd (connect env page transport version message st)) = requested st)
   \<and> (2 < version \<longrightarrow>
      fst (connect env page transport version message (initTonConnect env)) =
        Resolves (ConnectEventError 1 BAD_REQUEST_ERROR ''Unsupported protocol version'')
      \<and> requested (snd (connect env page transport version message (initTonConnect env))) = [])"
  by (simp add: connect_def connect_call_eq initTonConnect_def TONCONNECT_VERSION_def)

theorem connect_unsupported_version_witness:
  "protocolVersion (initTonConnect sample_env) < 3
   \<and> (2::int) < 3
   \<and> fst (connect sample_env quiet_page failing_transport 3 sample_request
             (initTonConnect sample_env)) =
       Resolves (ConnectEventError 1 1 ''Unsupported protocol version'')
   \<and> requested (snd (connect sample_env quiet_page failing_transport 3 sample_request
                        (initTonConnect sample_env))) = []"
  using connect_unsupported_version
          [of "initTonConnect sample_env" 3 sample_env quiet_page failing_transport sample_request]
  by (simp add: initTonConnect_def TONCONNECT_VERSION_def BAD_REQUEST_ERROR_def)

subsection \<open>Responses to \<^verbatim>\<open>send\<close>\<close>

text \<open>
  Claim C7. When the transport's promise resolves with no response, \<^verbatim>\<open>send\<close>
  resolves with \<^verbatim>\<open>{ error: { code: 0, message: 'Unknown error' }, id }\<close>, where
  \<^verbatim>\<open>id\<close> is the message's own identifier. The first part is the whole method, the
  second its continuation in whatever state the bridge is by then.
\<close>

theorem send_no_response:
  "(transport \<lparr> name = ''tonConnect_'' @ app_method message, args = [ArgMessage message] \<rparr>
      = Resolves None \<longrightarrow>
    fst (send transport message st) =
      Resolves (WalletError 0 ''Unknown error'' (app_id message)))
   \<and> fst (send_resume message (Resolves None) st') =
       Resolves (WalletError 0 ''Unknown error'' (app_id message))"
  by (simp add: send_def send_call_eq send_resume_def)

theorem send_no_response_witness:
  "silent_transport
      \<lparr> name = ''tonConnect_'' @ app_method
                   \<lparr> app_method = ''getBalance'', app_params = [], app_id = IdNumber 5 \<rparr>,
        args = [ArgMessage \<lparr> app_method = ''getBalance'', app_params = [], app_id = IdNumber 5 \<rparr>] \<rparr>
     = (Resolves None :: wallet_response option promise)
   \<and> fst (send silent_transport
             \<lparr> app_method = ''getBalance'', app_params = [], app_id = IdNumber 5 \<rparr>
             (initTonConnect sample_env)) =
       Resolves (WalletError 0 ''Unknown error'' (IdNumber 5))"
  using send_no_response
          [of silent_transport
              "\<lparr> app_method = ''getBalance'', app_params = [], app_id = IdNumber 5 \<rparr>"
              "initTonConnect sample_env"]
  by (simp add: silent_transport_def)

text \<open>
  Claim C8. A message whose method is "disconnect": once the transport's promise has
  resolved, with a response of either kind or with none, the page-unload listener is
  no longer registered. The call itself, before the transport answers, leaves the
  listener as it is.
\<close>

theorem send_disconnect_removes_unload_listener:
  "(app_method message = ''disconnect'' \<and>
    transport \<lparr> name = ''tonConnect_disconnect'', args = [ArgMessage message] \<rparr> = Resolves response
      \<longrightarrow> \<not> unloadListening (snd (send transport message st)))
   \<and> (app_method message = ''disconnect''
      \<longrightarrow> \<not> unloadListening (snd (send_resume message (Resolves response) st')))
   \<and> unloadListening (snd (send_call message st)) = unloadListening st"
  by (simp add: send_def send_call_eq send_resume_def)

theorem send_disconnect_removes_unload_listener_witness:
  "unloadListening (snd (connect sample_env quiet_page granting_transport 2 sample_request
                           (initTonConnect sample_env)))
   \<and> app_method \<lparr> app_method = ''disconnect'', app_params = [], app_id = IdNumber 7 \<rparr>
       = ''disconnect''
   \<and> silent_transport
        \<lparr> name = ''tonConnect_disconnect'',
          args = [ArgMessage \<lparr> app_method = ''disconnect'', app_params = [], app_id = IdNumber 7 \<rparr>] \<rparr>
       = (Resolves None :: wallet_response option promise)
   \<and> \<not> unloadListening
         (snd (send silent_transport
                 \<lparr> app_method = ''disconnect'', app_params = [], app_id = IdNumber 7 \<rparr>
                 (snd (connect sample_env quiet_page granting_transport 2 sample_request
                         (initTonConnect sample_env)))))"
  using send_disconnect_removes_unload_listener
          [of "\<lparr> app_method = ''disconnect'', app_params = [], app_id = IdNumber 7 \<rparr>"
              silent_transport None
              "snd (connect sample_env quiet_page granting_transport 2 sample_request
                      (initTonConnect sample_env))"]
  by (simp add: silent_transport_def connect_def connect_call_eq initTonConnect_def
        TONCONNECT_VERSION_def granting_transport_def)

text \<open>
  When the transport's promise rejects, the method ends at its \<^verbatim>\<open>await\<close>: the
  page-unload listener stays as it was.
\<close>

lemma send_rejected_keeps_unload_listener:
  "unloadListening (snd (send_resume message (Rejects reason) st)) = unloadListening st"
  by (simp add: send_resume_def)



subsection \<open>The request-id counter\<close>

lemma exec_counter:
  "lastGeneratedId (exec env page s st) =
     (if allocates s then increment (lastGeneratedId st) else lastGeneratedId st)"
  "allocated (exec env page s st) =
     (if allocates s then allocated st @ [increment (lastGeneratedId st)] else allocated st)"
  by (cases s; simp add: connect_call_eq restoreConnection_call_eq send_call_eq
        restoreConnection_resume_eq unloadEventListener_def)+

lemma run_Cons: "run env page (s # steps) st = run env page steps (exec env page s st)"
  by (simp add: run_def)

lemma run_counter:
  "lastGeneratedId (run env page steps st) =
     (increment ^^ length (filter allocates steps)) (lastGeneratedId st)"
proof (induction steps arbitrary: st)
  case Nil
  show ?case by (simp add: run_def)
next
  case (Cons s steps)
  show ?case
    by (simp add: run_Cons Cons.IH exec_counter funpow_swap1)
qed

lemma run_allocated:
  "allocated (run env page steps st) =
     allocated st @
       map (\<lambda>j. (increment ^^ j) (lastGeneratedId st)) [1 ..< Suc (length (filter allocates steps))]"
proof (induction steps arbitrary: st)
  case Nil
  show ?case by (simp add: run_def)
next
  case (Cons s steps)
  show ?case
  proof (cases "allocates s")
    case True
    let ?k = "length (filter allocates steps)"
    have "[1 ..< Suc (Suc ?k)] = 1 # map Suc [1 ..< Suc ?k]"
      by (simp add: upt_conv_Cons map_Suc_upt del: upt_Suc)
    then have "map (\<lambda>j. (increment ^^ j) (lastGeneratedId st)) [1 ..< Suc (Suc ?k)] =
                 increment (lastGeneratedId st) #
                   map (\<lambda>j. (increment ^^ j) (increment (lastGeneratedId st))) [1 ..< Suc ?k]"
      by (simp add: funpow_swap1 comp_def del: upt_Suc)
    with True show ?thesis
      by (simp add: run_Cons Cons.IH exec_counter del: upt_Suc)
  next
    case False
    then show ?thesis
      by (simp add: run_Cons Cons.IH exec_counter del: upt_Suc)
  qed
qed

lemma funpow_increment_below:
  "n + j \<le> exact_limit \<Longrightarrow> (increment ^^ j) n = n + j"
  by (induction j arbitrary: n) (simp_all add: increment_below funpow_swap1)

lemma funpow_increment_limit: "(increment ^^ j) exact_limit = exact_limit"
  by (induction j) (simp_all add: increment_limit)

lemma run_counter_below:
  assumes "length (filter allocates steps) \<le> exact_limit"
  shows "lastGeneratedId (run env page steps (initTonConnect env)) =
           length (filter allocates steps)"
  using assms by (simp add: run_counter funpow_increment_below initTonConnect_def)

lemma run_allocated_below:
  assumes "length (filter allocates steps) \<le> exact_limit"
  shows "allocated (run env page steps (initTonConnect env)) =
           [1 ..< Suc (length (filter allocates steps))]"
proof -
  have "(increment ^^ j) 0 = j" if "j \<in> set [1 ..< Suc (length (filter allocates steps))]" for j
  proof -
    from that assms have "0 + j \<le> exact_limit"
      by (simp del: upt_Suc)
    then show ?thesis
      using funpow_increment_below [of 0 j] by simp
  qed
  then have "map (\<lambda>j. (increment ^^ j) 0) [1 ..< Suc (length (filter allocates steps))] =
          map (\<lambda>j. j) [1 ..< Suc (length (filter allocates steps))]"
    by (intro map_cong refl)
  then show ?thesis
    by (simp add: run_allocated initTonConnect_def del: upt_Suc)
qed

text \<open>
  The identifier a call takes is the one it goes on to use: in the error it returns,
  in the request it makes, in the event it emits.
\<close>

lemma connect_call_uses_allocated:
  "fst (connect_call version message st) =
     (if protocolVersion st < version
      then Returned (ConnectEventError (last (allocated (snd (connect_call version message st))))
                       BAD_REQUEST_ERROR ''Unsupported protocol version'')
      else Awaiting \<lparr> name = ''tonConnect_connect'',
                       args = [ArgConnectRequest message,
                               ArgId (last (allocated (snd (connect_call version message st))))] \<rparr>
                    (last (allocated (snd (connect_call version message st)))))"
  by (simp add: connect_call_eq)

lemma restoreConnection_call_uses_allocated:
  "fst (restoreConnection_call st) =
     Awaiting \<lparr> name = ''tonConnect_reconnect'',
                 args = [ArgId (last (allocated (snd (restoreConnection_call st))))] \<rparr>
              (last (allocated (snd (restoreConnection_call st))))"
  by (simp add: restoreConnection_call_eq)

lemma onDisconnect_uses_allocated:
  "received (snd (onDisconnect page st)) =
     received st @
       map (\<lambda>cb. (cb, DisconnectEvent (last (allocated (snd (onDisconnect page st))))))
         (reached page (DisconnectEvent (last (allocated (snd (onDisconnect page st)))))
            (callbacks st))"
  by simp

text \<open>
  Claim C4, as the code has it. One counter serves \<^verbatim>\<open>connect\<close>,
  \<^verbatim>\<open>restoreConnection\<close> and \<^verbatim>\<open>onDisconnect\<close>. Take any schedule of a new bridge,
  with the continuations of pending calls, sends, subscriptions and unsubscriptions
  placed anywhere, and let \<open>k\<close> be the number of its calls that take an identifier. As
  long as \<open>k\<close> is below \<open>2^53\<close>, the call that comes next uses the identifier
  \<open>k + 1\<close>: \<^verbatim>\<open>connect\<close> in the error it returns, or else in the request it hands
  to the transport and in what its continuation holds; \<^verbatim>\<open>restoreConnection\<close> in
  its request and its continuation; \<^verbatim>\<open>onDisconnect\<close> in the event its listeners
  receive. So the identifiers in use are \<open>1, 2, 3, \<dots>\<close> in the order of the calls:
  each is greater than all used before it, and none is used twice. The record of the
  identifiers taken says the same, up to \<open>2^53\<close> of them.
\<close>

theorem request_ids_strictly_increasing:
  "(let st = run env page steps (initTonConnect env);
        k = length (filter allocates steps)
    in (k < exact_limit \<longrightarrow>
          fst (connect_call version message st) =
            (if protocolVersion st < version
             then Returned (ConnectEventError (k + 1) BAD_REQUEST_ERROR
                              ''Unsupported protocol version'')
             else Awaiting \<lparr> name = ''tonConnect_connect'',
                              args = [ArgConnectRequest message, ArgId (k + 1)] \<rparr> (k + 1))
          \<and> requested (snd (connect_call version message st)) =
              (if protocolVersion st < version then requested st
               else requested st @ [\<lparr> name = ''tonConnect_connect'',
                                       args = [ArgConnectRequest message, ArgId (k + 1)] \<rparr>])
          \<and> fst (restoreConnection_call st) =
              Awaiting \<lparr> name = ''tonConnect_reconnect'', args = [ArgId (k + 1)] \<rparr> (k + 1)
          \<and> requested (snd (restoreConnection_call st)) =
              requested st @ [\<lparr> name = ''tonConnect_reconnect'', args = [ArgId (k + 1)] \<rparr>]
          \<and> received (snd (onDisconnect page st)) =
              received st @ map (\<lambda>cb. (cb, DisconnectEvent (k + 1)))
                              (reached page (DisconnectEvent (k + 1)) (callbacks st)))
       \<and> (k \<le> exact_limit \<longrightarrow>
          allocated st = [1 ..< Suc k]
          \<and> sorted_wrt (<) (allocated st)
          \<and> distinct (allocated st)))"
proof -
  let ?st = "run env page steps (initTonConnect env)"
  let ?k = "length (filter allocates steps)"
  have next_one: "increment (lastGeneratedId ?st) = ?k + 1" if "?k < exact_limit"
    using that by (simp add: run_counter_below increment_below)
  have log: "allocated ?st = [1 ..< Suc ?k]" if "?k \<le> exact_limit"
    using that by (rule run_allocated_below)
  show ?thesis
    unfolding Let_def
  proof (intro conjI impI)
    assume "?k \<le> exact_limit"
    then show "allocated ?st = [1 ..< Suc ?k]"
      by (rule log)
    then show "sorted_wrt (<) (allocated ?st)" and "distinct (allocated ?st)"
      by (simp_all del: upt_Suc)
  qed (simp_all add: connect_call_eq restoreConnection_call_eq next_one)
qed

theorem request_ids_strictly_increasing_witness:
  "length (filter allocates
     [OnDisconnect, ConnectCall 2 sample_request, Listen 7, RestoreConnectionCall]) < exact_limit
   \<and> fst (restoreConnection_call
        (run sample_env quiet_page
           [OnDisconnect, ConnectCall 2 sample_request, Listen 7, RestoreConnectionCall]
           (initTonConnect sample_env))) =
       Awaiting \<lparr> name = ''tonConnect_reconnect'', args = [ArgId 4] \<rparr> 4
   \<and> received (snd (onDisconnect quiet_page
        (run sample_env quiet_page
           [OnDisconnect, ConnectCall 2 sample_request, Listen 7, RestoreConnectionCall]
           (initTonConnect sample_env)))) =
       [(7, DisconnectEvent 4)]
   \<and> allocated
        (run sample_env quiet_page
           [OnDisconnect, ConnectCall 2 sample_request, Listen 7, RestoreConnectionCall]
           (initTonConnect sample_env)) = [1, 2, 3]"
proof -
  let ?steps = "[OnDisconnect, ConnectCall 2 sample_request, Listen 7, RestoreConnectionCall]"
  let ?st = "run sample_env quiet_page ?steps (initTonConnect sample_env)"
  have k: "length (filter allocates ?steps) = 3"
    by simp
  have lim: "(3::nat) < exact_limit"
    by (simp add: exact_limit_def)
  have cbs: "callbacks ?st = [7]" and rec: "received ?st = []"
    by (simp_all add: run_def connect_call_eq restoreConnection_call_eq initTonConnect_def
          TONCONNECT_VERSION_def quiet_page_def)
  have lim': "(3::nat) \<le> exact_limit"
    using lim by simp
  have t: "fst (restoreConnection_call ?st) =
             Awaiting \<lparr> name = ''tonConnect_reconnect'', args = [ArgId (3 + 1)] \<rparr> (3 + 1)
           \<and> received (snd (onDisconnect quiet_page ?st)) =
               received ?st @ map (\<lambda>cb. (cb, DisconnectEvent (3 + 1)))
                                (reached quiet_page (DisconnectEvent (3 + 1)) (callbacks ?st))
           \<and> allocated ?st = [1 ..< Suc 3]"
    using request_ids_strictly_increasing
            [where env = sample_env and page = quiet_page and steps = ?steps and version = 2
               and message = sample_request]
          lim lim'
    unfolding Let_def k by blast
  have u: "[1 ..< Suc 3] = [1, 2, 3::nat]"
    by (simp add: upt_conv_Cons del: upt_Suc)
  have r: "reached quiet_page (DisconnectEvent 4) [7] = [7]"
    by (simp add: quiet_page_def)
  from t show ?thesis
    unfolding k cbs rec u using lim r by simp
qed

text \<open>
  The claim as the spec words it fails for a schedule long enough. After \<open>2^53\<close>
  calls of \<^verbatim>\<open>onDisconnect\<close> on a new bridge the counter holds \<open>2^53\<close>, the
  identifier of the last of them; \<^verbatim>\<open>++\<close> no longer changes it, and the two calls of
  \<^verbatim>\<open>restoreConnection\<close> that follow both send this identifier again.
\<close>

theorem request_id_repeats_at_limit:
  "exact_limit = 9007199254740992
   \<and> lastGeneratedId (run sample_env quiet_page (replicate exact_limit OnDisconnect)
                         (initTonConnect sample_env)) = 9007199254740992
   \<and> fst (restoreConnection_call
             (run sample_env quiet_page (replicate exact_limit OnDisconnect)
                (initTonConnect sample_env))) =
       Awaiting \<lparr> name = ''tonConnect_reconnect'', args = [ArgId 9007199254740992] \<rparr>
                9007199254740992
   \<and> fst (restoreConnection_call
             (snd (restoreConnection_call
                (run sample_env quiet_page (replicate exact_limit OnDisconnect)
                   (initTonConnect sample_env))))) =
       Awaiting \<lparr> name = ''tonConnect_reconnect'', args = [ArgId 9007199254740992] \<rparr>
                9007199254740992"
proof -
  let ?st = "run sample_env quiet_page (replicate exact_limit OnDisconnect)
               (initTonConnect sample_env)"
  have lim: "exact_limit = 9007199254740992"
    by (simp add: exact_limit_def)
  have "length (filter allocates (replicate exact_limit OnDisconnect)) = exact_limit"
    by simp
  then have counter: "lastGeneratedId ?st = exact_limit"
    using run_counter_below [of "replicate exact_limit OnDisconnect" sample_env quiet_page]
    by simp
  have first: "fst (restoreConnection_call ?st) =
      Awaiting \<lparr> name = ''tonConnect_reconnect'', args = [ArgId exact_limit] \<rparr> exact_limit"
    by (simp add: restoreConnection_call_eq counter increment_limit)
  have "lastGeneratedId (snd (restoreConnection_call ?st)) = exact_limit"
    by (simp add: restoreConnection_call_eq counter increment_limit)
  then have second: "fst (restoreConnection_call (snd (restoreConnection_call ?st))) =
      Awaiting \<lparr> name = ''tonConnect_reconnect'', args = [ArgId exact_limit] \<rparr> exact_limit"
    by (simp add: restoreConnection_call_eq [of "snd (restoreConnection_call ?st)"] increment_limit)
  from counter first second show ?thesis
    unfolding lim by simp
qed

text \<open>
  Claim C10. \<^verbatim>\<open>send\<close> leaves the counter alone, in its call and in its continuation
  alike, whatever the transport does: the next identifier is the same after it as
  before it. For a whole schedule: striking out every step of a \<^verbatim>\<open>send\<close> leaves
  the identifiers taken along the schedule as they were.
\<close>

theorem send_keeps_request_id_counter:
  "lastGeneratedId (snd (send transport message st)) = lastGeneratedId st
   \<and> fst (next_id (snd (send transport message st))) = fst (next_id st)
   \<and> lastGeneratedId (snd (send_call message st)) = lastGeneratedId st
   \<and> lastGeneratedId (snd (send_resume message settled st)) = lastGeneratedId st
   \<and> allocated (run env page steps st) =
       allocated (run env page (filter (\<lambda>s. \<not> is_send s) steps) st)"
proof -
  have "allocates s \<Longrightarrow> \<not> is_send s" for s
    by (cases s) simp_all
  then have "filter allocates (filter (\<lambda>s. \<not> is_send s) steps) = filter allocates steps"
    by (induction steps) auto
  then show ?thesis
    by (simp add: run_allocated send_def send_call_eq del: upt_Suc)
qed

subsection \<open>The device descriptor of a granted connection\<close>

lemma settle_emit_fst:
  "fst (settle (emit page event st)) \<in> insert (Resolves event) (range Rejects)"
  by (simp add: emit_fst split: outcome.splits)

lemma settle_emit_resolves:
  "\<forall>cb \<in> set (callbacks st). \<not> throws (page cb event) \<Longrightarrow>
     fst (settle (emit page event st)) = Resolves event"
  by (simp add: emit_returns)

text \<open>
  Claim C5. When the transport answers \<^verbatim>\<open>connect\<close> or \<^verbatim>\<open>restoreConnection\<close> with
  an event tagged "connect", the method's promise resolves with that event, the
  \<^verbatim>\<open>device\<close> field of its payload replaced by \<^verbatim>\<open>getDeviceInfo()\<close>, computed anew,
  whatever the transport had put there; the rest of the event is the transport's. The
  promise resolves with no other value: it resolves with this one when the listeners
  return normally, and otherwise rejects with what a listener threw. The descriptor
  holds the platform found by \<^verbatim>\<open>getPlatform\<close>, the name "MyTonWallet", the version
  of \<^verbatim>\<open>package.json\<close>, the protocol version 2 and the two features.
\<close>

theorem connect_overwrites_device:
  "(version \<le> protocolVersion st \<and>
    transport \<lparr> name = ''tonConnect_connect'',
                args = [ArgConnectRequest message, ArgId (increment (lastGeneratedId st))] \<rparr>
      = Resolves (Some (ConnectEvent eid payload))
    \<longrightarrow> fst (connect env page transport version message st) \<in>
          insert (Resolves (ConnectEvent eid (payload\<lparr>device := Some (getDeviceInfo env)\<rparr>)))
            (range Rejects)
        \<and> ((\<forall>cb \<in> set (callbacks st).
              \<not> throws (page cb (ConnectEvent eid (payload\<lparr>device := Some (getDeviceInfo env)\<rparr>))))
           \<longrightarrow> fst (connect env page transport version message st) =
                 Resolves (ConnectEvent eid (payload\<lparr>device := Some (getDeviceInfo env)\<rparr>))))
   \<and> (transport \<lparr> name = ''tonConnect_reconnect'', args = [ArgId (increment (lastGeneratedId st))] \<rparr>
        = Resolves (Some (ConnectEvent eid payload))
      \<longrightarrow> fst (restoreConnection env page transport st) \<in>
            insert (Resolves (ConnectEvent eid (payload\<lparr>device := Some (getDeviceInfo env)\<rparr>)))
              (range Rejects)
          \<and> ((\<forall>cb \<in> set (callbacks st).
                \<not> throws (page cb (ConnectEvent eid (payload\<lparr>device := Some (getDeviceInfo env)\<rparr>))))
             \<longrightarrow> fst (restoreConnection env page transport st) =
                   Resolves (ConnectEvent eid (payload\<lparr>device := Some (getDeviceInfo env)\<rparr>))))
   \<and> getDeviceInfo env =
        \<lparr> platform = getPlatform env,
          appName = ''MyTonWallet'',
          appVersion = packageJson_version env,
          maxProtocolVersion = 2,
          features = [Feature ''SendTransaction'', FeatureMaxMessages ''SendTransaction'' 4] \<rparr>"
proof -
  let ?ev = "ConnectEvent eid (payload\<lparr>device := Some (getDeviceInfo env)\<rparr>)"
  have c: "fst (connect env page transport version message st) =
             fst (settle (emit page ?ev
               (addEventListeners
                  (snd (request ''connect'' [ArgConnectRequest message, ArgId (increment (lastGeneratedId st))]
                          (snd (next_id st)))))))"
    if "version \<le> protocolVersion st"
       "transport \<lparr> name = ''tonConnect_connect'',
                    args = [ArgConnectRequest message, ArgId (increment (lastGeneratedId st))] \<rparr>
          = Resolves (Some (ConnectEvent eid payload))"
    using that by (simp add: connect_def connect_call_eq)
  have r: "fst (restoreConnection env page transport st) =
             fst (settle (emit page ?ev
               (addEventListeners
                  (snd (request ''reconnect'' [ArgId (increment (lastGeneratedId st))]
                          (snd (next_id st)))))))"
    if "transport \<lparr> name = ''tonConnect_reconnect'', args = [ArgId (increment (lastGeneratedId st))] \<rparr>
          = Resolves (Some (ConnectEvent eid payload))"
    using that
    by (simp add: restoreConnection_def restoreConnection_call_eq restoreConnection_resume_eq)
  have d: "getDeviceInfo env =
        \<lparr> platform = getPlatform env,
          appName = ''MyTonWallet'',
          appVersion = packageJson_version env,
          maxProtocolVersion = 2,
          features = [Feature ''SendTransaction'', FeatureMaxMessages ''SendTransaction'' 4] \<rparr>"
    by (simp add: getDeviceInfo_def TONCONNECT_VERSION_def)
  show ?thesis
    using c r d settle_emit_fst settle_emit_resolves
    by (simp del: settle_fields)
qed

lemma getPlatform_sample_env: "getPlatform sample_env = Some linux"
  by (simp add: getPlatform_def sample_env_def)

theorem connect_overwrites_device_witness:
  "(2::int) \<le> protocolVersion (initTonConnect sample_env)
   \<and> granting_transport
        \<lparr> name = ''tonConnect_connect'',
          args = [ArgConnectRequest sample_request,
                  ArgId (increment (lastGeneratedId (initTonConnect sample_env)))] \<rparr>
       = Resolves (Some (ConnectEvent 0
           \<lparr> items = [''ton_addr''],
             device = Some \<lparr> platform = Some browser, appName = ''Other'', appVersion = ''0'',
                             maxProtocolVersion = 1, features = [] \<rparr> \<rparr>))
   \<and> granting_transport
        \<lparr> name = ''tonConnect_reconnect'',
          args = [ArgId (increment (lastGeneratedId (initTonConnect sample_env)))] \<rparr>
       = Resolves (Some (ConnectEvent 0
           \<lparr> items = [''ton_addr''],
             device = Some \<lparr> platform = Some browser, appName = ''Other'', appVersion = ''0'',
                             maxProtocolVersion = 1, features = [] \<rparr> \<rparr>))
   \<and> callbacks (initTonConnect sample_env) = []
   \<and> fst (connect sample_env quiet_page granting_transport 2 sample_request
             (initTonConnect sample_env)) =
       Resolves (ConnectEvent 0
         \<lparr> items = [''ton_addr''],
           device = Some \<lparr> platform = Some linux, appName = ''MyTonWallet'',
                           appVersion = ''1.19.0'', maxProtocolVersion = 2,
                           features = [Feature ''SendTransaction'',
                                       FeatureMaxMessages ''SendTransaction'' 4] \<rparr> \<rparr>)
   \<and> fst (restoreConnection sample_env quiet_page granting_transport
             (initTonConnect sample_env)) =
       Resolves (ConnectEvent 0
         \<lparr> items = [''ton_addr''],
           device = Some \<lparr> platform = Some linux, appName = ''MyTonWallet'',
                           appVersion = ''1.19.0'', maxProtocolVersion = 2,
                           features = [Feature ''SendTransaction'',
                                       FeatureMaxMessages ''SendTransaction'' 4] \<rparr> \<rparr>)"
proof -
  have v: "packageJson_version sample_env = ''1.19.0''"
    by (simp add: sample_env_def)
  have d: "getDeviceInfo sample_env =
             \<lparr> platform = Some linux, appName = ''MyTonWallet'', appVersion = ''1.19.0'',
               maxProtocolVersion = 2,
               features = [Feature ''SendTransaction'', FeatureMaxMessages ''SendTransaction'' 4] \<rparr>"
    by (simp add: getDeviceInfo_def getPlatform_sample_env v TONCONNECT_VERSION_def)
  have h1: "(2::int) \<le> protocolVersion (initTonConnect sample_env)"
    by (simp add: initTonConnect_def TONCONNECT_VERSION_def)
  have h2: "granting_transport r =
              Resolves (Some (ConnectEvent 0
                \<lparr> items = [''ton_addr''],
                  device = Some \<lparr> platform = Some browser, appName = ''Other'', appVersion = ''0'',
                                  maxProtocolVersion = 1, features = [] \<rparr> \<rparr>))" for r
    by (simp add: granting_transport_def)
  have h3: "callbacks (initTonConnect sample_env) = []"
    by (simp add: initTonConnect_def)
  have "fst (connect sample_env quiet_page granting_transport 2 sample_request
               (initTonConnect sample_env)) =
          Resolves (ConnectEvent 0
            (\<lparr> items = [''ton_addr''],
               device = Some \<lparr> platform = Some browser, appName = ''Other'', appVersion = ''0'',
                               maxProtocolVersion = 1, features = [] \<rparr> \<rparr>
             \<lparr>device := Some (getDeviceInfo sample_env)\<rparr>))
        \<and> fst (restoreConnection sample_env quiet_page granting_transport
                  (initTonConnect sample_env)) =
          Resolves (ConnectEvent 0
            (\<lparr> items = [''ton_addr''],
               device = Some \<lparr> platform = Some browser, appName = ''Other'', appVersion = ''0'',
                               maxProtocolVersion = 1, features = [] \<rparr> \<rparr>
             \<lparr>device := Some (getDeviceInfo sample_env)\<rparr>))"
    using connect_overwrites_device
            [of 2 "initTonConnect sample_env" granting_transport sample_request 0
                "\<lparr> items = [''ton_addr''],
                   device = Some \<lparr> platform = Some browser, appName = ''Other'', appVersion = ''0'',
                                   maxProtocolVersion = 1, features = [] \<rparr> \<rparr>"
                sample_env quiet_page]
          h1 h2 h3
    by simp
  then show ?thesis
    using h1 h2 h3 by (simp add: d)
qed

subsection \<open>How the operations settle\<close>

text \<open>
  Claim C1, as the code has it. The promise of an operation settles the way the
  transport's promise does, provided the listeners return normally. When the transport
  resolves, with a response or with none, the operation resolves: \<^verbatim>\<open>connect\<close> and
  \<^verbatim>\<open>restoreConnection\<close> with the transport's event (a granted connection with the
  bridge's device descriptor) or, for no response, with the unknown-error
  \<^verbatim>\<open>connect_error\<close>; \<^verbatim>\<open>send\<close>, which invokes no listener, with the response or
  the unknown-error response. When the transport rejects, the operation rejects with
  the same reason, whatever the listeners would do: no method catches what its
  \<^verbatim>\<open>await\<close> throws.
  (\<^verbatim>\<open>connect\<close> with an unsupported version resolves without asking the transport.)
\<close>

theorem operations_settle_as_transport:
  "(version \<le> protocolVersion st \<and> (\<forall>cb \<in> set (callbacks st). \<forall>ev. \<not> throws (page cb ev)) \<longrightarrow>
      fst (connect env page transport version message st) =
        (case transport \<lparr> name = ''tonConnect_connect'',
                           args = [ArgConnectRequest message, ArgId (increment (lastGeneratedId st))] \<rparr> of
           Rejects reason \<Rightarrow> Rejects reason
         | Resolves None \<Rightarrow>
             Resolves (ConnectEventError (increment (lastGeneratedId st)) UNKNOWN_ERROR ''Unknown error'')
         | Resolves (Some (ConnectEvent eid payload)) \<Rightarrow>
             Resolves (ConnectEvent eid (payload\<lparr>device := Some (getDeviceInfo env)\<rparr>))
         | Resolves (Some event) \<Rightarrow> Resolves event))
   \<and> ((\<forall>cb \<in> set (callbacks st). \<forall>ev. \<not> throws (page cb ev)) \<longrightarrow>
      fst (restoreConnection env page transport st) =
        (case transport \<lparr> name = ''tonConnect_reconnect'',
                           args = [ArgId (increment (lastGeneratedId st))] \<rparr> of
           Rejects reason \<Rightarrow> Rejects reason
         | Resolves None \<Rightarrow>
             Resolves (ConnectEventError (increment (lastGeneratedId st)) UNKNOWN_ERROR ''Unknown error'')
         | Resolves (Some (ConnectEvent eid payload)) \<Rightarrow>
             Resolves (ConnectEvent eid (payload\<lparr>device := Some (getDeviceInfo env)\<rparr>))
         | Resolves (Some event) \<Rightarrow> Resolves event))
   \<and> fst (send transport' request_message st) =
        (case transport' \<lparr> name = ''tonConnect_'' @ app_method request_message,
                            args = [ArgMessage request_message] \<rparr> of
           Rejects reason \<Rightarrow> Rejects reason
         | Resolves None \<Rightarrow> Resolves (WalletError 0 ''Unknown error'' (app_id request_message))
         | Resolves (Some response) \<Rightarrow> Resolves response)
   \<and> (version \<le> protocolVersion st \<and>
      transport \<lparr> name = ''tonConnect_connect'',
                  args = [ArgConnectRequest message, ArgId (increment (lastGeneratedId st))] \<rparr>
        = Rejects rejection \<longrightarrow>
      fst (connect env page transport version message st) = Rejects rejection)
   \<and> (transport \<lparr> name = ''tonConnect_reconnect'',
                  args = [ArgId (increment (lastGeneratedId st))] \<rparr>
        = Rejects rejection \<longrightarrow>
      fst (restoreConnection env page transport st) = Rejects rejection)"
  by (simp add: connect_def connect_call_eq restoreConnection_def restoreConnection_call_eq
        restoreConnection_resume_eq send_def send_call_eq send_resume_def emit_returns
        split: promise.splits option.splits wallet_event.splits)

theorem operations_settle_as_transport_witness:
  "(2::int) \<le> protocolVersion (initTonConnect sample_env)
   \<and> callbacks (initTonConnect sample_env) = []
   \<and> fst (connect sample_env quiet_page silent_transport 2 sample_request
             (initTonConnect sample_env)) =
       Resolves (ConnectEventError 1 0 ''Unknown error'')
   \<and> fst (connect sample_env quiet_page failing_transport 2 sample_request
             (initTonConnect sample_env)) =
       Rejects ''transport failure''"
  using operations_settle_as_transport
          [of 2 "initTonConnect sample_env" quiet_page sample_env silent_transport sample_request]
        operations_settle_as_transport
          [of 2 "initTonConnect sample_env" quiet_page sample_env failing_transport sample_request]
  by (simp add: silent_transport_def failing_transport_def initTonConnect_def
        TONCONNECT_VERSION_def UNKNOWN_ERROR_def)

text \<open>
  The claim as the spec words it fails: a transport whose promise rejects makes each
  of the three operations reject. So does, for \<^verbatim>\<open>connect\<close> against a transport
  that resolves, a registered listener that throws.
\<close>

theorem transport_rejection_reaches_caller:
  "fst (connect sample_env quiet_page failing_transport 2 sample_request
          (initTonConnect sample_env)) = Rejects ''transport failure''
   \<and> fst (restoreConnection sample_env quiet_page failing_transport
             (initTonConnect sample_env)) = Rejects ''transport failure''
   \<and> fst (send failing_transport
             \<lparr> app_method = ''getBalance'', app_params = [], app_id = IdNumber 5 \<rparr>
             (initTonConnect sample_env)) = Rejects ''transport failure''
   \<and> fst (connect sample_env throwing_page silent_transport 2 sample_request
             (snd (listen 1 (initTonConnect sample_env)))) = Rejects ''listener failure''"
  by (simp add: connect_def connect_call_eq restoreConnection_def restoreConnection_call_eq
        restoreConnection_resume_eq send_def send_call_eq send_resume_def
        failing_transport_def silent_transport_def initTonConnect_def TONCONNECT_VERSION_def
        emit_fst throwing_page_def invoke_def)

subsection \<open>Which outcomes reach the listeners\<close>

lemma connect_resume_reaches_listeners:
  assumes "\<forall>cb \<in> set (callbacks st). \<forall>ev. \<not> throws (page cb ev)"
  shows "\<exists>event. fst (connect_resume env page rid (Resolves response) st) = Resolves event
           \<and> received (snd (connect_resume env page rid (Resolves response) st)) =
               received st @ map (\<lambda>cb. (cb, event)) (callbacks st)"
proof -
  consider "response = None"
    | eid payload where "response = Some (ConnectEvent eid payload)"
    | eid code msg where "response = Some (ConnectEventError eid code msg)"
    | eid where "response = Some (DisconnectEvent eid)"
    by (metis option.exhaust wallet_event.exhaust)
  then show ?thesis
    using assms by cases (simp_all add: emit_returns reached_all)
qed

text \<open>
  Claim C2, as far as the code's design goes. Once the transport's promise has
  resolved, with a response or with none, \<^verbatim>\<open>connect\<close> and \<^verbatim>\<open>restoreConnection\<close>
  hand one event to \<^verbatim>\<open>emit\<close> and return it: when the listeners return normally,
  every listener registered at that moment receives this event once, in the order of
  registration, and the promise resolves with it. The first part speaks of the
  continuation after the \<^verbatim>\<open>await\<close>, in the state the bridge then has; the other two
  of the whole methods.
\<close>

theorem settled_connect_reaches_listeners:
  "((\<forall>cb \<in> set (callbacks st'). \<forall>ev. \<not> throws (page cb ev)) \<longrightarrow>
      (\<exists>event. fst (connect_resume env page rid (Resolves response) st') = Resolves event
         \<and> received (snd (connect_resume env page rid (Resolves response) st')) =
             received st' @ map (\<lambda>cb. (cb, event)) (callbacks st'))
      \<and> (\<exists>event. fst (restoreConnection_resume env page rid (Resolves response) st') = Resolves event
         \<and> received (snd (restoreConnection_resume env page rid (Resolves response) st')) =
             received st' @ map (\<lambda>cb. (cb, event)) (callbacks st')))
   \<and> (version \<le> protocolVersion st \<and>
      transport \<lparr> name = ''tonConnect_connect'',
                  args = [ArgConnectRequest message, ArgId (increment (lastGeneratedId st))] \<rparr>
        = Resolves response \<and>
      (\<forall>cb \<in> set (callbacks st). \<forall>ev. \<not> throws (page cb ev)) \<longrightarrow>
      (\<exists>event. fst (connect env page transport version message st) = Resolves event
         \<and> received (snd (connect env page transport version message st)) =
             received st @ map (\<lambda>cb. (cb, event)) (callbacks st)))
   \<and> (transport \<lparr> name = ''tonConnect_reconnect'', args = [ArgId (increment (lastGeneratedId st))] \<rparr>
        = Resolves response \<and>
      (\<forall>cb \<in> set (callbacks st). \<forall>ev. \<not> throws (page cb ev)) \<longrightarrow>
      (\<exists>event. fst (restoreConnection env page transport st) = Resolves event
         \<and> received (snd (restoreConnection env page transport st)) =
             received st @ map (\<lambda>cb. (cb, event)) (callbacks st)))"
proof -
  have c: "\<exists>event. fst (connect env page transport version message st) = Resolves event
             \<and> received (snd (connect env page transport version message st)) =
                 received st @ map (\<lambda>cb. (cb, event)) (callbacks st)"
    if "version \<le> protocolVersion st"
       "transport \<lparr> name = ''tonConnect_connect'',
                    args = [ArgConnectRequest message, ArgId (increment (lastGeneratedId st))] \<rparr>
          = Resolves response"
       "\<forall>cb \<in> set (callbacks st). \<forall>ev. \<not> throws (page cb ev)"
  proof -
    let ?st1 = "snd (request ''connect'' [ArgConnectRequest message, ArgId (increment (lastGeneratedId st))]
                       (snd (next_id st)))"
    have "connect env page transport version message st =
            connect_resume env page (increment (lastGeneratedId st)) (Resolves response) ?st1"
      using that by (simp add: connect_def connect_call_eq)
    moreover have "\<forall>cb \<in> set (callbacks ?st1). \<forall>ev. \<not> throws (page cb ev)"
      using that by simp
    ultimately show ?thesis
      using connect_resume_reaches_listeners [of ?st1 page env "increment (lastGeneratedId st)" response]
      by simp
  qed
  have r: "\<exists>event. fst (restoreConnection env page transport st) = Resolves event
             \<and> received (snd (restoreConnection env page transport st)) =
                 received st @ map (\<lambda>cb. (cb, event)) (callbacks st)"
    if "transport \<lparr> name = ''tonConnect_reconnect'', args = [ArgId (increment (lastGeneratedId st))] \<rparr>
          = Resolves response"
       "\<forall>cb \<in> set (callbacks st). \<forall>ev. \<not> throws (page cb ev)"
  proof -
    let ?st1 = "snd (request ''reconnect'' [ArgId (increment (lastGeneratedId st))] (snd (next_id st)))"
    have "restoreConnection env page transport st =
            connect_resume env page (increment (lastGeneratedId st)) (Resolves response) ?st1"
      using that
      by (simp add: restoreConnection_def restoreConnection_call_eq restoreConnection_resume_eq)
    moreover have "\<forall>cb \<in> set (callbacks ?st1). \<forall>ev. \<not> throws (page cb ev)"
      using that by simp
    ultimately show ?thesis
      using connect_resume_reaches_listeners [of ?st1 page env "increment (lastGeneratedId st)" response]
      by simp
  qed
  show ?thesis
    using c r connect_resume_reaches_listeners [of st' page env rid response]
    by (simp only: restoreConnection_resume_eq) blast
qed

theorem settled_connect_reaches_listeners_witness:
  "callbacks (snd (listen 8 (snd (listen 7 (initTonConnect sample_env))))) = [7, 8]
   \<and> (\<forall>ev. \<not> throws (quiet_page 7 ev))
   \<and> (\<forall>ev. \<not> throws (quiet_page 8 ev))
   \<and> (2::int) \<le> protocolVersion (snd (listen 8 (snd (listen 7 (initTonConnect sample_env)))))
   \<and> silent_transport
        \<lparr> name = ''tonConnect_connect'',
          args = [ArgConnectRequest sample_request,
                  ArgId (increment (lastGeneratedId
                           (snd (listen 8 (snd (listen 7 (initTonConnect sample_env)))))))] \<rparr>
       = (Resolves None :: wallet_event option promise)
   \<and> fst (connect sample_env quiet_page silent_transport 2 sample_request
             (snd (listen 8 (snd (listen 7 (initTonConnect sample_env)))))) =
       Resolves (ConnectEventError 1 0 ''Unknown error'')
   \<and> received (snd (connect sample_env quiet_page silent_transport 2 sample_request
                       (snd (listen 8 (snd (listen 7 (initTonConnect sample_env))))))) =
       [(7, ConnectEventError 1 0 ''Unknown error''), (8, ConnectEventError 1 0 ''Unknown error'')]"
proof -
  let ?st = "snd (listen 8 (snd (listen 7 (initTonConnect sample_env))))"
  have h1: "(2::int) \<le> protocolVersion ?st"
    by (simp add: initTonConnect_def TONCONNECT_VERSION_def)
  have h2: "silent_transport r = (Resolves None :: wallet_event option promise)" for r
    by (simp add: silent_transport_def)
  have h3: "\<forall>cb \<in> set (callbacks ?st). \<forall>ev. \<not> throws (quiet_page cb ev)"
    by (simp add: quiet_page_def)
  from settled_connect_reaches_listeners
         [of ?st quiet_page sample_env 1 None 2 ?st silent_transport sample_request]
       h1 h2 h3
  obtain event where
    e: "fst (connect sample_env quiet_page silent_transport 2 sample_request ?st) = Resolves event"
       "received (snd (connect sample_env quiet_page silent_transport 2 sample_request ?st)) =
          received ?st @ map (\<lambda>cb. (cb, event)) (callbacks ?st)"
    by blast
  have "fst (connect sample_env quiet_page silent_transport 2 sample_request ?st) =
          Resolves (ConnectEventError 1 0 ''Unknown error'')"
    by (simp add: connect_def connect_call_eq initTonConnect_def TONCONNECT_VERSION_def
          silent_transport_def UNKNOWN_ERROR_def emit_returns quiet_page_def)
  with e have "event = ConnectEventError 1 0 ''Unknown error''"
    by simp
  with e h1 h2 show ?thesis
    by (simp add: initTonConnect_def quiet_page_def)
qed

text \<open>
  The claim as the spec words it fails in two ways. With a listener registered,
  \<^verbatim>\<open>connect(3, ...)\<close> on a new bridge returns the bad-request error to its caller
  and invokes no listener: the early \<^verbatim>\<open>return\<close> does not pass through \<^verbatim>\<open>emit\<close>,
  as every other outcome does. And with two listeners of which the first throws,
  \<^verbatim>\<open>connect(2, ...)\<close> against a transport that gives no response invokes the first
  listener only and rejects, so that no event is returned.
\<close>

theorem connect_outcomes_missing_listeners:
  "callbacks (snd (listen 7 (initTonConnect sample_env))) = [7]
   \<and> fst (connect sample_env quiet_page silent_transport 3 sample_request
             (snd (listen 7 (initTonConnect sample_env)))) =
       Resolves (ConnectEventError 1 1 ''Unsupported protocol version'')
   \<and> received (snd (connect sample_env quiet_page silent_transport 3 sample_request
                       (snd (listen 7 (initTonConnect sample_env))))) = []
   \<and> callbacks (snd (listen 2 (snd (listen 1 (initTonConnect sample_env))))) = [1, 2]
   \<and> fst (connect sample_env throwing_page silent_transport 2 sample_request
             (snd (listen 2 (snd (listen 1 (initTonConnect sample_env)))))) =
       Rejects ''listener failure''
   \<and> received (snd (connect sample_env throwing_page silent_transport 2 sample_request
                       (snd (listen 2 (snd (listen 1 (initTonConnect sample_env))))))) =
       [(1, ConnectEventError 1 0 ''Unknown error'')]"
  by (simp add: connect_def connect_call_eq silent_transport_def initTonConnect_def
        TONCONNECT_VERSION_def BAD_REQUEST_ERROR_def UNKNOWN_ERROR_def
        emit_fst throwing_page_def invoke_def)

subsection \<open>The registry during and after a dispatch\<close>

lemma dispatched_eq:
  "dispatched page event st = map (\<lambda>cb. (cb, event)) (reached page event (callbacks st))"
  by (simp add: dispatched_def)

lemma set_performed: "set (performed as) \<subseteq> set as"
  by (induction as rule: performed.induct) auto

lemma performed_all: "\<not> throws as \<Longrightarrow> performed as = as"
  by (induction as rule: performed.induct) simp_all

lemma fold_perform_absent:
  "d \<notin> set (callbacks st) \<Longrightarrow> CallListen d \<notin> set as \<Longrightarrow>
     d \<notin> set (callbacks (fold perform as st))"
proof (induction as arbitrary: st)
  case Nil
  then show ?case by simp
next
  case (Cons a as)
  from Cons.prems have "d \<notin> set (callbacks (perform a st))"
    by (cases a) auto
  with Cons.prems show ?case
    by (simp add: Cons.IH)
qed

lemma fold_perform_unsubscribed:
  "CallUnsubscribe d \<in> set as \<Longrightarrow> CallListen d \<notin> set as \<Longrightarrow>
     d \<notin> set (callbacks (fold perform as st))"
proof (induction as arbitrary: st)
  case Nil
  then show ?case by simp
next
  case (Cons a as)
  show ?case
  proof (cases "a = CallUnsubscribe d")
    case True
    then have "d \<notin> set (callbacks (perform a st))"
      by simp
    with Cons.prems show ?thesis
      by (simp add: fold_perform_absent)
  next
    case False
    with Cons.prems show ?thesis
      by (simp add: Cons.IH)
  qed
qed

lemma emit_absent:
  assumes "c \<notin> set (callbacks st)" and "\<forall>cb ev. CallListen c \<notin> set (page cb ev)"
  shows "c \<notin> set (callbacks (snd (emit page event st)))"
proof -
  have "CallListen c \<notin> set (concat (map (\<lambda>cb. performed (page cb event))
                                      (reached page event (callbacks st))))"
    using assms(2) set_performed by fastforce
  with assms(1) show ?thesis
    by (simp add: fold_perform_absent)
qed

lemma emit_count:
  assumes "c \<notin> set (callbacks st)"
  shows "count_list (map fst (received (snd (emit page event st)))) c =
           count_list (map fst (received st)) c"
proof -
  have "c \<notin> set (reached page event (callbacks st))"
    using assms set_reached by fastforce
  then show ?thesis
    by (simp add: comp_def)
qed

text \<open>
  Claim C6, as the code has it. A dispatch of \<open>E\<close> runs over the list the registry
  holds when the dispatch starts, in the order of registration, and ends at the first
  listener that throws: a listener of that list receives \<open>E\<close>, once, exactly when no
  listener before it throws. What the listeners subscribe or unsubscribe while the
  dispatch runs plays no part in this. So when no listener of the list throws, every
  listener of the list receives \<open>E\<close>, be it registered before or after a listener
  unsubscribed during the dispatch, and the unsubscribed one as well. The removal
  shows afterwards: a listener unsubscribed during the dispatch (and not registered
  again in it) is out of the registry when the dispatch ends, and the next dispatch
  does not invoke it.
\<close>

theorem unsubscribe_during_dispatch:
  "dispatched page E st = map (\<lambda>cb. (cb, E)) (reached page E (callbacks st))
   \<and> ((\<forall>cb \<in> set (callbacks st). \<not> throws (page cb E)) \<longrightarrow>
        dispatched page E st = map (\<lambda>cb. (cb, E)) (callbacks st)
        \<and> (c \<in> set (callbacks st) \<and> CallUnsubscribe d \<in> set (page c E) \<and>
           (\<forall>c' \<in> set (callbacks st). CallListen d \<notin> set (page c' E))
           \<longrightarrow> d \<notin> set (callbacks (snd (emit page E st)))
               \<and> d \<notin> fst ` set (dispatched page' E' (snd (emit page E st)))))"
proof -
  have gone: "d \<notin> set (callbacks (snd (emit page E st)))"
    if quiet: "\<forall>cb \<in> set (callbacks st). \<not> throws (page cb E)"
      and "c \<in> set (callbacks st)" "CallUnsubscribe d \<in> set (page c E)"
          "\<forall>c' \<in> set (callbacks st). CallListen d \<notin> set (page c' E)"
  proof -
    have "map (\<lambda>cb. performed (page cb E)) (callbacks st) = map (\<lambda>cb. page cb E) (callbacks st)"
      using quiet by (simp add: performed_all)
    moreover from that have "CallUnsubscribe d \<in> set (concat (map (\<lambda>cb. page cb E) (callbacks st)))"
      and "CallListen d \<notin> set (concat (map (\<lambda>cb. page cb E) (callbacks st)))"
      by auto
    ultimately show ?thesis
      using quiet by (simp add: reached_all fold_perform_unsubscribed)
  qed
  have "fst ` set (dispatched page' E' st') \<subseteq> set (callbacks st')" for st'
    using set_reached [of page' E' "callbacks st'"] by (force simp: dispatched_eq)
  with gone show ?thesis
    by (auto simp: dispatched_eq reached_all)
qed

theorem unsubscribe_during_dispatch_witness:
  "callbacks ((initTonConnect sample_env)\<lparr>callbacks := [1, 2, 3, 4]\<rparr>) = [1, 2, 3, 4]
   \<and> \<not> throws (concat (map (\<lambda>cb. unsubscribing_page cb (DisconnectEvent 5)) [1, 2, 3, 4]))
   \<and> CallUnsubscribe 3 \<in> set (unsubscribing_page 1 (DisconnectEvent 5))
   \<and> CallListen 3 \<notin> set (concat (map (\<lambda>cb. unsubscribing_page cb (DisconnectEvent 5))
                                     [1, 2, 3, 4]))
   \<and> dispatched unsubscribing_page (DisconnectEvent 5)
        ((initTonConnect sample_env)\<lparr>callbacks := [1, 2, 3, 4]\<rparr>) =
       [(1, DisconnectEvent 5), (2, DisconnectEvent 5), (3, DisconnectEvent 5),
        (4, DisconnectEvent 5)]
   \<and> 3 \<notin> set (callbacks (snd (emit unsubscribing_page (DisconnectEvent 5)
                                   ((initTonConnect sample_env)\<lparr>callbacks := [1, 2, 3, 4]\<rparr>))))
   \<and> 3 \<notin> fst ` set (dispatched unsubscribing_page (DisconnectEvent 6)
                         (snd (emit unsubscribing_page (DisconnectEvent 5)
                                 ((initTonConnect sample_env)\<lparr>callbacks := [1, 2, 3, 4]\<rparr>))))"
  using unsubscribe_during_dispatch
          [of unsubscribing_page "DisconnectEvent 5"
              "(initTonConnect sample_env)\<lparr>callbacks := [1, 2, 3, 4]\<rparr>" 1 3
              unsubscribing_page "DisconnectEvent 6"]
  by (simp add: unsubscribing_page_def)

text \<open>
  The claim as the spec words it fails when a listener throws. Of the listeners 1, 2
  and 3, registered in this order, listener 1 unsubscribes listener 3 and then throws:
  the dispatch ends there, and listener 2, registered before the unsubscribed one and
  not unsubscribed, does not receive the event.
\<close>

theorem throwing_listener_ends_dispatch:
  "callbacks (snd (listen 3 (snd (listen 2 (snd (listen 1 (initTonConnect sample_env))))))) =
     [1, 2, 3]
   \<and> throwing_page 1 (DisconnectEvent 5) = [CallUnsubscribe 3, Throw ''listener failure'']
   \<and> dispatched throwing_page (DisconnectEvent 5)
        (snd (listen 3 (snd (listen 2 (snd (listen 1 (initTonConnect sample_env))))))) =
       [(1, DisconnectEvent 5)]
   \<and> (2, DisconnectEvent 5) \<notin>
       set (dispatched throwing_page (DisconnectEvent 5)
              (snd (listen 3 (snd (listen 2 (snd (listen 1 (initTonConnect sample_env))))))))
   \<and> callbacks (snd (emit throwing_page (DisconnectEvent 5)
        (snd (listen 3 (snd (listen 2 (snd (listen 1 (initTonConnect sample_env))))))))) = [1, 2]"
  by (simp add: dispatched_eq throwing_page_def initTonConnect_def)

subsection \<open>A callback registered more than once\<close>

lemma settle_emit_absent:
  assumes "c \<notin> set (callbacks st)" and "\<forall>cb ev. CallListen c \<notin> set (page cb ev)"
  shows "c \<notin> set (callbacks (snd (settle (emit page event st))))"
  using emit_absent [OF assms] by (simp del: emit_fields)

lemma settle_emit_count:
  assumes "c \<notin> set (callbacks st)"
  shows "count_list (map fst (received (snd (settle (emit page event st))))) c =
           count_list (map fst (received st)) c"
  using emit_count [OF assms] by (simp del: emit_fields)

lemma connect_resume_absent:
  assumes "c \<notin> set (callbacks st)" and "\<forall>cb ev. CallListen c \<notin> set (page cb ev)"
  shows "c \<notin> set (callbacks (snd (connect_resume env page rid settled st)))"
proof (cases settled rule: settled_cases)
  case (3 eid payload)
  from assms have "c \<notin> set (callbacks (addEventListeners st))"
    by simp
  with 3 assms(2) show ?thesis
    by (simp add: settle_emit_absent del: settle_fields emit_fields)
qed (use assms in \<open>simp_all add: settle_emit_absent del: settle_fields emit_fields\<close>)

lemma connect_resume_count:
  assumes "c \<notin> set (callbacks st)"
  shows "count_list (map fst (received (snd (connect_resume env page rid settled st)))) c =
           count_list (map fst (received st)) c"
proof (cases settled rule: settled_cases)
  case (3 eid payload)
  from assms have "c \<notin> set (callbacks (addEventListeners st))"
    by simp
  from settle_emit_count [OF this] 3 show ?thesis
    by (simp del: settle_fields emit_fields)
qed (use assms in \<open>simp_all add: settle_emit_count del: settle_fields emit_fields\<close>)

lemma onDisconnect_absent:
  assumes "c \<notin> set (callbacks st)" and "\<forall>cb ev. CallListen c \<notin> set (page cb ev)"
  shows "c \<notin> set (callbacks (snd (onDisconnect page st)))"
proof -
  from assms(1) have "c \<notin> set (callbacks (snd (next_id st)))"
    by simp
  from emit_absent [OF this assms(2)] show ?thesis
    by (simp del: emit_fields)
qed

lemma onDisconnect_count:
  assumes "c \<notin> set (callbacks st)"
  shows "count_list (map fst (received (snd (onDisconnect page st)))) c =
           count_list (map fst (received st)) c"
proof -
  have "c \<notin> set (reached page (DisconnectEvent (increment (lastGeneratedId st))) (callbacks st))"
    using assms set_reached by fastforce
  then show ?thesis
    by (simp add: comp_def)
qed

lemma exec_absent:
  assumes "c \<notin> set (callbacks st)" and "s \<noteq> Listen c"
    and "\<forall>cb ev. CallListen c \<notin> set (page cb ev)"
  shows "c \<notin> set (callbacks (exec env page s st))"
  using assms
  by (cases s)
     (simp_all add: connect_call_eq restoreConnection_call_eq send_call_eq
        restoreConnection_resume_eq connect_resume_absent onDisconnect_absent
        unloadEventListener_def del: onDisconnect_fields)

lemma exec_count:
  assumes "c \<notin> set (callbacks st)"
  shows "count_list (map fst (received (exec env page s st))) c =
           count_list (map fst (received st)) c"
  using assms
  by (cases s)
     (simp_all add: connect_call_eq restoreConnection_call_eq send_call_eq
        restoreConnection_resume_eq connect_resume_count onDisconnect_count
        unloadEventListener_def del: onDisconnect_fields)

lemma run_count:
  assumes "c \<notin> set (callbacks st)" and "\<forall>s \<in> set steps. s \<noteq> Listen c"
    and "\<forall>cb ev. CallListen c \<notin> set (page cb ev)"
  shows "count_list (map fst (received (run env page steps st))) c =
           count_list (map fst (received st)) c"
  using assms
proof (induction steps arbitrary: st)
  case Nil
  show ?case by (simp add: run_def)
next
  case (Cons s steps)
  have step: "run env page (s # steps) st = run env page steps (exec env page s st)"
    by (simp add: run_def)
  from Cons.prems have "c \<notin> set (callbacks (exec env page s st))"
    by (simp add: exec_absent)
  with Cons.prems have
    "count_list (map fst (received (run env page steps (exec env page s st)))) c =
       count_list (map fst (received (exec env page s st))) c"
    by (simp add: Cons.IH)
  with Cons.prems show ?case
    by (simp add: step exec_count)
qed

text \<open>
  Claim C9. Two calls of \<^verbatim>\<open>listen\<close> with the same callback put it into the registry
  twice and return functions that do the same. One call of either function, in whatever
  state the bridge then is, leaves no registration of the callback: both are gone at
  once. The dispatch that follows does not invoke the callback, and neither does any
  later step of a schedule, as long as nothing registers the callback again.
\<close>

theorem unsubscribe_removes_every_registration:
  "count_list (callbacks (snd (listen c (snd (listen c st))))) c = count_list (callbacks st) c + 2
   \<and> fst (listen c (snd (listen c st))) = fst (listen c st)
   \<and> count_list (callbacks (fst (listen c st) st')) c = 0
   \<and> count_list (map fst (dispatched page E (fst (listen c st) st'))) c = 0
   \<and> ((\<forall>s \<in> set steps. s \<noteq> Listen c) \<and> (\<forall>cb ev. CallListen c \<notin> set (page cb ev))
      \<longrightarrow> count_list (map fst (received (run env page steps (fst (listen c st) st')))) c =
            count_list (map fst (received st')) c)"
proof -
  have absent: "c \<notin> set (callbacks (unsubscribe c st'))"
    by simp
  have "count_list (map fst (received (run env page steps (unsubscribe c st')))) c =
          count_list (map fst (received st')) c"
    if "\<forall>s \<in> set steps. s \<noteq> Listen c" "\<forall>cb ev. CallListen c \<notin> set (page cb ev)"
    using run_count [OF absent that] by simp
  moreover have "c \<notin> set (reached page E (callbacks (unsubscribe c st')))"
    using absent set_reached by fastforce
  ultimately show ?thesis
    by (simp add: dispatched_eq comp_def)
qed

theorem unsubscribe_removes_every_registration_witness:
  "callbacks (snd (listen 7 (snd (listen 7 (initTonConnect sample_env))))) = [7, 7]
   \<and> Listen 7 \<notin> set [OnDisconnect, ConnectCall 2 sample_request, ConnectSettled 2 (Resolves None)]
   \<and> (\<forall>cb ev. CallListen 7 \<notin> set (quiet_page cb ev))
   \<and> callbacks (fst (listen 7 (initTonConnect sample_env))
                  (snd (listen 7 (snd (listen 7 (initTonConnect sample_env)))))) = []
   \<and> count_list
        (map fst (received
           (run sample_env quiet_page
              [OnDisconnect, ConnectCall 2 sample_request, ConnectSettled 2 (Resolves None)]
              (fst (listen 7 (initTonConnect sample_env))
                 (snd (listen 7 (snd (listen 7 (initTonConnect sample_env))))))))) 7 = 0"
  using unsubscribe_removes_every_registration
          [of 7 "initTonConnect sample_env"
              "snd (listen 7 (snd (listen 7 (initTonConnect sample_env))))"
              quiet_page "DisconnectEvent 1"
              "[OnDisconnect, ConnectCall 2 sample_request, ConnectSettled 2 (Resolves None)]"
              sample_env]
  by (simp add: quiet_page_def initTonConnect_def)

end
